theory Spec2Isabelle
  imports Main "HOL-Library.Multiset" "HOL-Library.Char_ord" "HOL-Library.List_Lexorder"
begin

section \<open>The metadata wizard of dataplexutils (wizard.py)\<close>

text \<open>
  A shallow embedding of \<^verbatim>\<open>src/package/dataplexutils/metadata/wizard.py\<close>: the prompt
  manager, the client options, and the methods of \<^verbatim>\<open>Client\<close> that generate, stage and
  accept descriptions. Python exceptions are values of \<open>error\<close>; a method that reads or
  writes the client's state is a function from the state to a result and the new state.
\<close>

subsection \<open>Exceptions\<close>

datatype error =
    NotFound
  | BadRequest
  | ValueError
  | AttributeError
  | TypeError
  | UnboundLocalError
  | ApiError string

subsection \<open>Strings\<close>

text \<open>\<^verbatim>\<open>s.endswith(t)\<close>\<close>

definition endswith :: "string \<Rightarrow> string \<Rightarrow> bool" where
  "endswith s t = (length t \<le> length s \<and> drop (length s - length t) s = t)"

text \<open>\<^verbatim>\<open>str(x)\<close> inside an f-string, for a value that is a string or \<^verbatim>\<open>None\<close>.\<close>

definition py_str :: "string option \<Rightarrow> string" where
  "py_str v = (case v of None \<Rightarrow> ''None'' | Some s \<Rightarrow> s)"

subsection \<open>Constants (constants.toml)\<close>

text \<open>
  The file \<^verbatim>\<open>constants.toml\<close> is read at import time and is not part of the sources at
  hand, so its entries are parameters of the model: the prompt fragments of the table
  \<^verbatim>\<open>PROMPTS\<close>, and the scalar entries used by the client.
\<close>

record prompts =
  SYSTEM_PROMPT :: string
  TABLE_DESCRIPTION_PROMPT_BASE :: string
  COLUMN_DESCRIPTION_PROMPT_BASE :: string
  TABLE_DESCRIPTION_PROMPT_PROFILE :: string
  TABLE_DESCRIPTION_PROMPT_QUALITY :: string
  TABLE_DESCRIPTION_PROMPT_LINEAGE_TABLES :: string
  TABLE_DESCRIPTION_PROMPT_LINEAGE_PROCESSES :: string
  TABLE_DESCRIPTION_PROMPT_DOCUMENT :: string
  TABLE_DESCRIPTION_GENERATION_BASE :: string
  TABLE_DESCRIPTION_GENERATION_LINEAGE :: string
  OUTPUT_FORMAT_PROMPT :: string

text \<open>
  Modelled from the spec: the table \<^verbatim>\<open>GENERATION_STRATEGY\<close> of constants.toml, which maps
  the name of a strategy to its number. The spec names five strategies; the numbers are
  only compared for equality, so each is a constructor.
\<close>

datatype strategy = NAIVE | RANDOM | ALPHABETICAL | DOCUMENTED | DOCUMENTED_THEN_REST

definition GENERATION_STRATEGY :: "string \<Rightarrow> strategy option" where
  "GENERATION_STRATEGY s =
     (if s = ''NAIVE'' then Some NAIVE
      else if s = ''RANDOM'' then Some RANDOM
      else if s = ''ALPHABETICAL'' then Some ALPHABETICAL
      else if s = ''DOCUMENTED'' then Some DOCUMENTED
      else if s = ''DOCUMENTED_THEN_REST'' then Some DOCUMENTED_THEN_REST
      else None)"

subsection \<open>ClientOptions and PromptManager\<close>

record client_options =
  use_lineage_tables :: bool
  use_lineage_processes :: bool
  use_profile :: bool
  use_data_quality :: bool
  use_ext_documents :: bool
  persist_to_dataplex_catalog :: bool
  stage_for_review :: bool
  add_ai_warning :: bool

text \<open>\<^verbatim>\<open>ClientOptions()\<close> with its default arguments.\<close>

definition default_client_options :: client_options where
  "default_client_options =
     \<lparr>use_lineage_tables = False, use_lineage_processes = False, use_profile = False,
      use_data_quality = False, use_ext_documents = False,
      persist_to_dataplex_catalog = True, stage_for_review = False, add_ai_warning = True\<rparr>"

datatype PromtType = PROMPT_TYPE_TABLE | PROMPT_TYPE_COLUMN

definition get_prompt_table :: "prompts \<Rightarrow> client_options \<Rightarrow> string" where
  "get_prompt_table P opts =
     (let p = SYSTEM_PROMPT P;
          p = p @ TABLE_DESCRIPTION_PROMPT_BASE P;
          p = (if use_profile opts then p @ TABLE_DESCRIPTION_PROMPT_PROFILE P else p);
          p = (if use_data_quality opts then p @ TABLE_DESCRIPTION_PROMPT_QUALITY P else p);
          p = (if use_lineage_tables opts
               then p @ TABLE_DESCRIPTION_PROMPT_LINEAGE_TABLES P else p);
          p = (if use_lineage_processes opts
               then p @ TABLE_DESCRIPTION_PROMPT_LINEAGE_PROCESSES P else p);
          p = (if use_ext_documents opts then p @ TABLE_DESCRIPTION_PROMPT_DOCUMENT P else p);
          p = p @ TABLE_DESCRIPTION_GENERATION_BASE P;
          p = (if use_lineage_tables opts \<or> use_lineage_processes opts
               then p @ TABLE_DESCRIPTION_GENERATION_LINEAGE P else p);
          p = p @ OUTPUT_FORMAT_PROMPT P
      in p)"

definition get_prompt_columns :: "prompts \<Rightarrow> client_options \<Rightarrow> string" where
  "get_prompt_columns P opts =
     (let p = SYSTEM_PROMPT P;
          p = p @ COLUMN_DESCRIPTION_PROMPT_BASE P;
          p = (if use_profile opts then p @ TABLE_DESCRIPTION_PROMPT_PROFILE P else p);
          p = (if use_data_quality opts then p @ TABLE_DESCRIPTION_PROMPT_QUALITY P else p);
          p = (if use_lineage_tables opts
               then p @ TABLE_DESCRIPTION_PROMPT_LINEAGE_TABLES P else p);
          p = (if use_lineage_processes opts
               then p @ TABLE_DESCRIPTION_PROMPT_LINEAGE_PROCESSES P else p);
          p = p @ OUTPUT_FORMAT_PROMPT P
      in p)"

fun get_promtp :: "prompts \<Rightarrow> PromtType \<Rightarrow> client_options \<Rightarrow> string" where
  "get_promtp P PROMPT_TYPE_TABLE opts = get_prompt_table P opts"
| "get_promtp P PROMPT_TYPE_COLUMN opts = get_prompt_columns P opts"

text \<open>
  The assembly as the specification words it: a fixed, ordered table of gated fragments,
  of which the enabled ones are concatenated. \<open>spec_prompt\<close> gates the generation-base
  clause for no kind, as the specification's sentence does; \<open>spec_prompt_amended\<close> gates it
  for tables only.
\<close>

definition spec_fragments ::
  "bool \<Rightarrow> prompts \<Rightarrow> PromtType \<Rightarrow> client_options \<Rightarrow> (bool \<times> string) list" where
  "spec_fragments generation_base_for_columns P kind opts =
     [(True, SYSTEM_PROMPT P),
      (True, (case kind of PROMPT_TYPE_TABLE \<Rightarrow> TABLE_DESCRIPTION_PROMPT_BASE P
                         | PROMPT_TYPE_COLUMN \<Rightarrow> COLUMN_DESCRIPTION_PROMPT_BASE P)),
      (use_profile opts, TABLE_DESCRIPTION_PROMPT_PROFILE P),
      (use_data_quality opts, TABLE_DESCRIPTION_PROMPT_QUALITY P),
      (use_lineage_tables opts, TABLE_DESCRIPTION_PROMPT_LINEAGE_TABLES P),
      (use_lineage_processes opts, TABLE_DESCRIPTION_PROMPT_LINEAGE_PROCESSES P),
      (kind = PROMPT_TYPE_TABLE \<and> use_ext_documents opts, TABLE_DESCRIPTION_PROMPT_DOCUMENT P),
      (kind = PROMPT_TYPE_TABLE \<or> generation_base_for_columns,
         TABLE_DESCRIPTION_GENERATION_BASE P),
      (kind = PROMPT_TYPE_TABLE \<and> (use_lineage_tables opts \<or> use_lineage_processes opts),
         TABLE_DESCRIPTION_GENERATION_LINEAGE P),
      (True, OUTPUT_FORMAT_PROMPT P)]"

definition spec_prompt :: "prompts \<Rightarrow> PromtType \<Rightarrow> client_options \<Rightarrow> string" where
  "spec_prompt P kind opts = concat (map snd (filter fst (spec_fragments True P kind opts)))"

definition spec_prompt_amended :: "prompts \<Rightarrow> PromtType \<Rightarrow> client_options \<Rightarrow> string" where
  "spec_prompt_amended P kind opts =
     concat (map snd (filter fst (spec_fragments False P kind opts)))"

text \<open>A small table of prompt fragments, one letter each, to run the assembly on.\<close>

definition letter_prompts :: prompts where
  "letter_prompts =
     \<lparr>SYSTEM_PROMPT = ''S'', TABLE_DESCRIPTION_PROMPT_BASE = ''T'',
      COLUMN_DESCRIPTION_PROMPT_BASE = ''C'', TABLE_DESCRIPTION_PROMPT_PROFILE = ''p'',
      TABLE_DESCRIPTION_PROMPT_QUALITY = ''q'', TABLE_DESCRIPTION_PROMPT_LINEAGE_TABLES = ''l'',
      TABLE_DESCRIPTION_PROMPT_LINEAGE_PROCESSES = ''j'',
      TABLE_DESCRIPTION_PROMPT_DOCUMENT = ''d'', TABLE_DESCRIPTION_GENERATION_BASE = ''G'',
      TABLE_DESCRIPTION_GENERATION_LINEAGE = ''L'', OUTPUT_FORMAT_PROMPT = ''O''\<rparr>"

subsection \<open>Ordering the tables of a dataset\<close>

text \<open>
  \<^verbatim>\<open>random.shuffle(x)\<close> of the Python library:
  \<^verbatim>\<open>for i in reversed(range(1, len(x))): j = randbelow(i + 1); x[i], x[j] = x[j], x[i]\<close>.
  The generator is the parameter \<open>randbelow\<close>; its contract \<open>randbelow n < n\<close> is
  enforced by the remainder.
\<close>

definition swap :: "nat \<Rightarrow> nat \<Rightarrow> 'a list \<Rightarrow> 'a list" where
  "swap i j xs = xs[i := xs ! j, j := xs ! i]"

fun shuffle_from :: "(nat \<Rightarrow> nat) \<Rightarrow> nat \<Rightarrow> 'a list \<Rightarrow> 'a list" where
  "shuffle_from randbelow 0 xs = xs"
| "shuffle_from randbelow (Suc k) xs =
     shuffle_from randbelow k (swap (Suc k) (randbelow (Suc (Suc k)) mod Suc (Suc k)) xs)"

definition shuffle :: "(nat \<Rightarrow> nat) \<Rightarrow> 'a list \<Rightarrow> 'a list" where
  "shuffle randbelow xs = shuffle_from randbelow (length xs - 1) xs"

definition order_tables_to_strategy ::
  "(nat \<Rightarrow> nat) \<Rightarrow> string list \<Rightarrow> strategy \<Rightarrow> string list" where
  "order_tables_to_strategy randbelow tables strat =
     (if strat = NAIVE then tables
      else if strat = RANDOM then shuffle randbelow tables
      else if strat = ALPHABETICAL then sort tables
      else tables)"

subsection \<open>The warehouse and the catalog\<close>

text \<open>
  A column descriptor is a \<^verbatim>\<open>bigquery.SchemaField\<close>; a table, as the client reads and
  writes it, has a schema and a description. The values of a catalog aspect's
  \<^verbatim>\<open>data\<close> are strings, lists of strings, or null.
\<close>

datatype schema_field = SchemaField
  (name: string)
  (field_type: string)
  (mode: string)
  (default_value_expression: "string option")
  (description: "string option")
  (fields: "schema_field list")
  (policy_tags: "string list option")
  (precision: "nat option")
  (scale: "nat option")
  (max_length: "nat option")
  (range_element_type: "string option")

record bq_table =
  table_schema :: "schema_field list"
  table_description :: "string option"

datatype pvalue = PNull | PString string | PStrings "string list"

record aspect =
  aspect_type :: string
  path :: string
  data :: "string \<rightharpoonup> pvalue"

record source_info =
  source_table_name :: string
  source_table_schema :: "(string \<times> string) list \<times> schema_field list"
  source_table_description :: "string option"

datatype profile_arg = TableProfile "string list" | ColumnInfo "string option"

text \<open>The keyword arguments of \<^verbatim>\<open>prompt.format(...)\<close>; scan results are JSON texts.\<close>

record prompt_context =
  ctx_column_name :: "string option"
  ctx_table_fqn :: string
  ctx_table_schema_str :: "(string \<times> string) list"
  ctx_table_sample :: string
  ctx_table_profile :: profile_arg
  ctx_table_quality :: "string list"
  ctx_table_sources_info :: "source_info list"
  ctx_job_sources_info :: "string list"
  ctx_human_comments :: "string list option"

subsection \<open>The client's state and its collaborators\<close>

text \<open>
  The state a method can change: the shared options object, the tables of the
  warehouse, the aspects of the catalog's entries (in the order an entry's map is
  iterated), the aspect types that exist, and the seconds slept.
\<close>

record world =
  options :: client_options
  bq_tables :: "string \<rightharpoonup> bq_table"
  catalog :: "string \<rightharpoonup> (string \<times> aspect) list"
  aspect_types :: "string list"
  slept :: "nat list"

text \<open>
  What the methods read and do not change is a parameter: constants.toml, the
  client's project, the clock and the random generator, and the answers of the cloud
  services. A method of the client that only wraps a service call, and that no property
  below is about, is taken by its result: \<^verbatim>\<open>_list_tables_in_dataset\<close>,
  \<^verbatim>\<open>_get_tables_from_uri\<close> on a URI (\<open>read_mapping\<close>), \<^verbatim>\<open>_split_table_fqn\<close>,
  \<^verbatim>\<open>_get_dataset_location\<close>, \<^verbatim>\<open>_get_table_sample\<close>, the enabled branch of
  \<^verbatim>\<open>_get_table_profile_quality\<close> (\<open>scan_results\<close>), \<^verbatim>\<open>_get_table_sources\<close>,
  \<^verbatim>\<open>_bq_job_info\<close>, \<^verbatim>\<open>_extract_column_info_from_table_profile\<close>, and \<^verbatim>\<open>str.format\<close>.
  \<open>generate_content\<close> is the body of one attempt of the model call, by the attempt's
  number. The three \<open>_error\<close> fields say whether a write to a service fails.
\<close>

record env =
  PROMPTS :: prompts
  NUM_ROWS_TO_SAMPLE :: nat
  MAX_COLUMN_DESC_LENGTH :: nat
  AI_WARNING :: string
  ASPECT_TEMPLATE_name :: string
  project_id :: string
  now :: string
  randbelow :: "nat \<Rightarrow> nat"
  list_tables_in_dataset :: "string \<Rightarrow> error + string list"
  storage_client :: "error option"
  read_mapping :: "string \<Rightarrow> error + (string \<times> string) list"
  split_table_fqn :: "string \<Rightarrow> error + (string \<times> string \<times> string)"
  get_dataset_location :: "string \<Rightarrow> error + string"
  get_table_sample :: "string \<Rightarrow> nat \<Rightarrow> error + string"
  scan_results :: "string \<Rightarrow> error + (string list \<times> string list)"
  get_table_sources :: "string \<Rightarrow> error + string list"
  search_links :: "string \<Rightarrow> string \<Rightarrow> error + string list"
  batch_search_link_processes :: "string \<Rightarrow> string list \<Rightarrow> error + string list"
  get_process :: "string \<Rightarrow> error + (string \<rightharpoonup> string)"
  bq_job_info :: "string \<Rightarrow> string \<Rightarrow> error + string"
  extract_column_info :: "string list \<Rightarrow> string \<Rightarrow> string option"
  format_prompt :: "string \<Rightarrow> prompt_context \<Rightarrow> error + string"
  generate_content :: "bool \<Rightarrow> string \<Rightarrow> string option \<Rightarrow> nat \<Rightarrow> error + string"
  update_table_error :: "string \<Rightarrow> error option"
  update_entry_error :: "string \<Rightarrow> error option"
  create_aspect_type_error :: "string \<Rightarrow> error option"

subsection \<open>Methods as state transformers that may raise\<close>

type_synonym 'a act = "world \<Rightarrow> (error + 'a) \<times> world"

definition ret :: "'a \<Rightarrow> 'a act" where
  "ret x = (\<lambda>w. (Inr x, w))"

definition raise :: "error \<Rightarrow> 'a act" where
  "raise e = (\<lambda>w. (Inl e, w))"

definition lift :: "error + 'a \<Rightarrow> 'a act" where
  "lift r = (\<lambda>w. (r, w))"

definition bindM :: "'a act \<Rightarrow> ('a \<Rightarrow> 'b act) \<Rightarrow> 'b act" where
  "bindM m f = (\<lambda>w. case m w of (Inl e, w') \<Rightarrow> (Inl e, w') | (Inr x, w') \<Rightarrow> f x w')"

text \<open>\<^verbatim>\<open>try: m  except Exception as e: h(e)\<close>\<close>

definition catch :: "'a act \<Rightarrow> (error \<Rightarrow> 'a act) \<Rightarrow> 'a act" where
  "catch m h = (\<lambda>w. case m w of (Inl e, w') \<Rightarrow> h e w' | (Inr x, w') \<Rightarrow> (Inr x, w'))"

definition get_options :: "client_options act" where
  "get_options = (\<lambda>w. (Inr (options w), w))"

definition set_options :: "(client_options \<Rightarrow> client_options) \<Rightarrow> unit act" where
  "set_options f = (\<lambda>w. (Inr (), w\<lparr>options := f (options w)\<rparr>))"

text \<open>\<^verbatim>\<open>for x in xs: body(x)\<close>, and a loop that appends one result per element.\<close>

fun for_each :: "'a list \<Rightarrow> ('a \<Rightarrow> unit act) \<Rightarrow> unit act" where
  "for_each [] body = ret ()"
| "for_each (x # xs) body = bindM (body x) (\<lambda>_. for_each xs body)"

fun collect :: "'a list \<Rightarrow> ('a \<Rightarrow> 'b act) \<Rightarrow> 'b list act" where
  "collect [] body = ret []"
| "collect (x # xs) body =
     bindM (body x) (\<lambda>y. bindM (collect xs body) (\<lambda>ys. ret (y # ys)))"

subsection \<open>The services' own operations\<close>

text \<open>\<^verbatim>\<open>bigquery.Client.get_table\<close> and \<^verbatim>\<open>update_table(table, [field])\<close>\<close>

definition get_table :: "string \<Rightarrow> bq_table act" where
  "get_table table_fqn =
     (\<lambda>w. case bq_tables w table_fqn of
             None \<Rightarrow> (Inl NotFound, w)
           | Some table \<Rightarrow> (Inr table, w))"

definition update_table :: "env \<Rightarrow> string \<Rightarrow> bq_table \<Rightarrow> unit act" where
  "update_table E table_fqn table =
     (\<lambda>w. case update_table_error E table_fqn of
             Some e \<Rightarrow> (Inl e, w)
           | None \<Rightarrow>
               (case bq_tables w table_fqn of
                  None \<Rightarrow> (Inl NotFound, w)
                | Some _ \<Rightarrow> (Inr (), w\<lparr>bq_tables := (bq_tables w)(table_fqn \<mapsto> table)\<rparr>)))"

text \<open>
  \<^verbatim>\<open>CatalogServiceClient.get_entry\<close> with a list of aspect types, and
  \<^verbatim>\<open>update_entry\<close> of one aspect under its key (\<^verbatim>\<open>allow_missing\<close> false).
\<close>

fun put_aspect :: "string \<Rightarrow> aspect \<Rightarrow> (string \<times> aspect) list \<Rightarrow> (string \<times> aspect) list" where
  "put_aspect k a [] = [(k, a)]"
| "put_aspect k a ((k', a') # rest) =
     (if k' = k then (k, a) # rest else (k', a') # put_aspect k a rest)"

definition get_entry :: "string \<Rightarrow> string list \<Rightarrow> (string \<times> aspect) list act" where
  "get_entry entry_name types =
     (\<lambda>w. case catalog w entry_name of
             None \<Rightarrow> (Inl NotFound, w)
           | Some aspects \<Rightarrow> (Inr (filter (\<lambda>(k, a). aspect_type a \<in> set types) aspects), w))"

definition update_entry :: "env \<Rightarrow> string \<Rightarrow> string \<Rightarrow> aspect \<Rightarrow> unit act" where
  "update_entry E entry_name key a =
     (\<lambda>w. case update_entry_error E entry_name of
             Some e \<Rightarrow> (Inl e, w)
           | None \<Rightarrow>
               (case catalog w entry_name of
                  None \<Rightarrow> (Inl NotFound, w)
                | Some aspects \<Rightarrow>
                    (Inr (), w\<lparr>catalog := (catalog w)(entry_name \<mapsto> put_aspect key a aspects)\<rparr>)))"

definition sleep :: "nat \<Rightarrow> unit act" where
  "sleep seconds = (\<lambda>w. (Inr (), w\<lparr>slept := slept w @ [seconds]\<rparr>))"

subsection \<open>Reading a table and its signals\<close>

definition table_exists :: "string \<Rightarrow> unit act" where
  "table_exists table_fqn =
     catch (bindM (get_table table_fqn) (\<lambda>_. ret ()))
           (\<lambda>e. if e = NotFound then raise NotFound else raise e)"

definition get_table_schema ::
  "string \<Rightarrow> ((string \<times> string) list \<times> schema_field list) act" where
  "get_table_schema table_fqn =
     catch (bindM (get_table table_fqn) (\<lambda>table.
              ret (map (\<lambda>field. (name field, field_type field)) (table_schema table),
                   table_schema table)))
           (\<lambda>e. if e = NotFound then raise NotFound else raise e)"

definition get_table_description :: "string \<Rightarrow> string option act" where
  "get_table_description table_fqn =
     catch (bindM (get_table table_fqn) (\<lambda>table. ret (table_description table))) raise"

text \<open>The result is the pair of \<^verbatim>\<open>data_profile\<close> and \<^verbatim>\<open>data_quality\<close>.\<close>

definition get_table_profile_quality ::
  "env \<Rightarrow> bool \<Rightarrow> string \<Rightarrow> (string list \<times> string list) act" where
  "get_table_profile_quality E use_enabled table_fqn =
     catch (if use_enabled then lift (scan_results E table_fqn) else ret ([], [])) raise"

definition get_table_profile :: "env \<Rightarrow> bool \<Rightarrow> string \<Rightarrow> string list act" where
  "get_table_profile E use_enabled table_fqn =
     catch (bindM (get_table_profile_quality E use_enabled table_fqn) (\<lambda>r. ret (fst r))) raise"

definition get_table_quality :: "env \<Rightarrow> bool \<Rightarrow> string \<Rightarrow> string list act" where
  "get_table_quality E use_enabled table_fqn =
     catch (bindM (get_table_profile_quality E use_enabled table_fqn) (\<lambda>r. ret (snd r))) raise"

definition get_table_sources_info :: "env \<Rightarrow> bool \<Rightarrow> string \<Rightarrow> source_info list act" where
  "get_table_sources_info E use_enabled table_fqn =
     catch
       (if use_enabled then
          bindM (lift (get_table_sources E table_fqn)) (\<lambda>table_sources.
          bindM (collect table_sources (\<lambda>table_source.
                   bindM (get_table_schema table_source) (\<lambda>sch.
                   bindM (get_table_description table_source) (\<lambda>d.
                   ret \<lparr>source_table_name = table_source, source_table_schema = sch,
                        source_table_description = d\<rparr>))))
            (\<lambda>table_sources_info.
          bindM (if table_sources_info = []
                 then set_options (\<lambda>opts. opts\<lparr>use_lineage_tables := False\<rparr>) else ret ())
            (\<lambda>_. ret table_sources_info)))
        else ret [])
       raise"

text \<open>
  In \<^verbatim>\<open>_get_job_sources\<close> a failure of the link search returns the empty list from the
  method, and so does every other exception.
\<close>

definition get_job_sources :: "env \<Rightarrow> bool \<Rightarrow> string \<Rightarrow> string list act" where
  "get_job_sources E use_enabled table_fqn =
     catch
       (if use_enabled then
          bindM (lift (get_dataset_location E table_fqn)) (\<lambda>dataset_location.
          bindM (catch (bindM (lift (search_links E table_fqn dataset_location))
                          (\<lambda>links. ret (Some links)))
                       (\<lambda>e. ret None))
            (\<lambda>link_results.
               case link_results of
                 None \<Rightarrow> ret []
               | Some links \<Rightarrow>
                   if length links > 0 then
                     bindM (lift (batch_search_link_processes E dataset_location links))
                       (\<lambda>lineage_processes_ids.
                     bindM (collect lineage_processes_ids (\<lambda>process_id.
                              bindM (lift (get_process E process_id)) (\<lambda>attributes.
                                case attributes ''bigquery_job_id'' of
                                  Some job \<Rightarrow>
                                    bindM (lift (bq_job_info E job dataset_location))
                                      (\<lambda>q. ret [q])
                                | None \<Rightarrow> ret [])))
                       (\<lambda>found.
                     bindM (if concat found = []
                            then set_options (\<lambda>opts. opts\<lparr>use_lineage_processes := False\<rparr>)
                            else ret ())
                       (\<lambda>_. ret (concat found))))
                   else
                     bindM (set_options (\<lambda>opts. opts\<lparr>use_lineage_processes := False\<rparr>))
                       (\<lambda>_. ret [])))
        else ret [])
       (\<lambda>e. ret [])"

subsection \<open>Model inference with retries\<close>

definition retries :: nat where
  "retries = 3"

definition base_delay :: nat where
  "base_delay = 1"

text \<open>
  The loop \<^verbatim>\<open>for attempt in range(retries+1)\<close> of \<^verbatim>\<open>_llm_inference\<close>; a loop that ran
  out of attempts would return \<^verbatim>\<open>None\<close>.
\<close>

fun llm_attempts :: "env \<Rightarrow> string \<Rightarrow> string option \<Rightarrow> nat list \<Rightarrow> string option act" where
  "llm_attempts E prompt documentation_uri [] = ret None"
| "llm_attempts E prompt documentation_uri (attempt # rest) =
     catch (bindM get_options (\<lambda>opts.
            bindM (lift (generate_content E (use_ext_documents opts) prompt documentation_uri
                           attempt))
              (\<lambda>text. ret (Some text))))
           (\<lambda>e. if attempt = retries then raise e
                else bindM (sleep (base_delay * 2 ^ attempt))
                       (\<lambda>_. llm_attempts E prompt documentation_uri rest))"

definition llm_inference :: "env \<Rightarrow> string \<Rightarrow> string option \<Rightarrow> string option act" where
  "llm_inference E prompt documentation_uri =
     llm_attempts E prompt documentation_uri [0..<retries + 1]"

subsection \<open>Writing descriptions\<close>

text \<open>
  Assigning \<^verbatim>\<open>table.description\<close> accepts a string or \<^verbatim>\<open>None\<close> and raises
  \<^verbatim>\<open>ValueError\<close> on anything else.
\<close>

definition update_table_bq_description :: "env \<Rightarrow> string \<Rightarrow> pvalue \<Rightarrow> unit act" where
  "update_table_bq_description E table_fqn d =
     catch (bindM (get_table table_fqn) (\<lambda>table.
              case d of
                PNull \<Rightarrow> update_table E table_fqn (table\<lparr>table_description := None\<rparr>)
              | PString s \<Rightarrow> update_table E table_fqn (table\<lparr>table_description := Some s\<rparr>)
              | PStrings _ \<Rightarrow> raise ValueError))
           raise"

definition update_table_schema :: "env \<Rightarrow> string \<Rightarrow> schema_field list \<Rightarrow> unit act" where
  "update_table_schema E table_fqn sch =
     catch (bindM (get_table table_fqn) (\<lambda>table.
              update_table E table_fqn (table\<lparr>table_schema := sch\<rparr>)))
           raise"

text \<open>
  \<^verbatim>\<open>_get_updated_column\<close> passes nine of the descriptor's attributes to a new
  \<^verbatim>\<open>SchemaField\<close>; the others, \<^verbatim>\<open>scale\<close> and \<^verbatim>\<open>range_element_type\<close> among
  them, take the constructor's defaults. Slicing \<^verbatim>\<open>None\<close> raises \<^verbatim>\<open>TypeError\<close>;
  slicing the list value read from an aspect raises \<^verbatim>\<open>AttributeError\<close>.
\<close>

definition get_updated_column :: "env \<Rightarrow> schema_field \<Rightarrow> pvalue \<Rightarrow> error + schema_field" where
  "get_updated_column E column column_description =
     (case column_description of
        PString s \<Rightarrow>
          Inr (SchemaField (name column) (field_type column) (mode column)
                 (default_value_expression column)
                 (Some (take (MAX_COLUMN_DESC_LENGTH E) s))
                 (schema_field.fields column) (policy_tags column) (precision column) None
                 (max_length column) None)
      | PNull \<Rightarrow> Inl TypeError
      | PStrings _ \<Rightarrow> Inl AttributeError)"

text \<open>
  The handler of \<^verbatim>\<open>_update_column_bq_description\<close> is \<^verbatim>\<open>raise e(message=...)\<close>, a call of
  the exception instance \<^verbatim>\<open>e\<close>, which raises \<^verbatim>\<open>TypeError\<close>.
\<close>

definition update_column_bq_description :: "env \<Rightarrow> string \<Rightarrow> string \<Rightarrow> pvalue \<Rightarrow> unit act" where
  "update_column_bq_description E table_fqn column_name d =
     catch (bindM (table_exists table_fqn) (\<lambda>_.
            bindM (get_table_schema table_fqn) (\<lambda>(table_schema_str, table_schema).
            bindM (collect table_schema (\<lambda>column.
                     if name column = column_name then lift (get_updated_column E column d)
                     else ret column))
              (\<lambda>updated_schema. update_table_schema E table_fqn updated_schema))))
           (\<lambda>e. raise TypeError)"

definition entry_name_of :: "string \<Rightarrow> string \<Rightarrow> string \<Rightarrow> string \<Rightarrow> string" where
  "entry_name_of project location dataset_id table_id =
     ''projects/'' @ project @ ''/locations/'' @ location
       @ ''/entryGroups/@bigquery/entries/bigquery.googleapis.com/projects/'' @ project
       @ ''/datasets/'' @ dataset_id @ ''/tables/'' @ table_id"

definition overview_aspect_type :: string where
  "overview_aspect_type = ''projects/dataplex-types/locations/global/aspectTypes/overview''"

definition draft_aspect_type :: "env \<Rightarrow> string" where
  "draft_aspect_type E =
     ''projects/'' @ project_id E @ ''/locations/global/aspectTypes/'' @ ASPECT_TEMPLATE_name E"

text \<open>
  \<^verbatim>\<open>_update_table_dataplex_description\<close> first puts the description into a
  \<^verbatim>\<open>Struct\<close>, outside any handler; that raises \<^verbatim>\<open>ValueError\<close> on the list value read
  from an aspect. Only the update of the entry is guarded.
\<close>

definition update_table_dataplex_description :: "env \<Rightarrow> string \<Rightarrow> pvalue \<Rightarrow> bool act" where
  "update_table_dataplex_description E table_fqn d =
     bindM (case d of
              PStrings _ \<Rightarrow> raise ValueError
            | PNull \<Rightarrow> ret ()
            | PString _ \<Rightarrow> ret ())
       (\<lambda>_.
     bindM (lift (split_table_fqn E table_fqn)) (\<lambda>(project, dataset_id, table_id).
     bindM (lift (get_dataset_location E table_fqn)) (\<lambda>location.
     catch (bindM (update_entry E (entry_name_of project location dataset_id table_id)
                     ''dataplex-types.global.overview''
                     \<lparr>aspect_type = overview_aspect_type, path = [],
                      data = [''content'' \<mapsto> d]\<rparr>)
              (\<lambda>_. ret True))
           (\<lambda>e. ret False))))"

definition new_aspect_content :: "pvalue \<Rightarrow> (string \<rightharpoonup> pvalue)" where
  "new_aspect_content d =
     [''certified'' \<mapsto> PString ''false'',
      ''user-who-certified'' \<mapsto> PString ''John Doe'',
      ''contents'' \<mapsto> d,
      ''generation-date'' \<mapsto> PString ''2023-06-15T10:00:00Z'',
      ''to-be-regenerated'' \<mapsto> PString ''false'',
      ''human-comments'' \<mapsto> PStrings [],
      ''negative-examples'' \<mapsto> PStrings [],
      ''external-document-uri'' \<mapsto> PString ''gs://example.com/document'']"

text \<open>
  The loop of \<^verbatim>\<open>_update_table_draft_description\<close> over the entry's aspects: each aspect
  whose key ends with \<^verbatim>\<open>global.<name>\<close> and whose path is empty replaces the data to
  write by its own, with three fields set.
\<close>

definition merged_draft_data ::
  "env \<Rightarrow> pvalue \<Rightarrow> (string \<times> aspect) list \<Rightarrow> (string \<rightharpoonup> pvalue)" where
  "merged_draft_data E d aspects =
     foldl (\<lambda>new_data (i, a).
              if endswith i (''global.'' @ ASPECT_TEMPLATE_name E) \<and> path a = []
              then (data a)(''contents'' \<mapsto> d,
                            ''generation-date'' \<mapsto> PString (now E),
                            ''to-be-regenerated'' \<mapsto> PString ''false'')
              else new_data)
           (new_aspect_content d) aspects"

definition update_table_draft_description :: "env \<Rightarrow> string \<Rightarrow> pvalue \<Rightarrow> bool act" where
  "update_table_draft_description E table_fqn d =
     bindM (lift (split_table_fqn E table_fqn)) (\<lambda>(project, dataset_id, table_id).
     bindM (lift (get_dataset_location E table_fqn)) (\<lambda>location.
     bindM (catch (get_entry (entry_name_of project location dataset_id table_id)
                     [draft_aspect_type E]) raise)
       (\<lambda>aspects.
     catch (bindM (update_entry E (entry_name_of project location dataset_id table_id)
                     (project_id E @ ''.global.'' @ ASPECT_TEMPLATE_name E)
                     \<lparr>aspect_type = draft_aspect_type E, path = [],
                      data = merged_draft_data E d aspects\<rparr>)
              (\<lambda>_. ret True))
           (\<lambda>e. ret False))))"

definition check_if_exists_aspect_type :: "env \<Rightarrow> string \<Rightarrow> bool act" where
  "check_if_exists_aspect_type E aspect_type_id =
     (\<lambda>w. (Inr (''projects/'' @ project_id E @ ''/locations/global/aspectTypes/'' @ aspect_type_id
                   \<in> set (aspect_types w)), w))"

definition create_aspect_type :: "env \<Rightarrow> string \<Rightarrow> unit act" where
  "create_aspect_type E aspect_type_id =
     (\<lambda>w. case create_aspect_type_error E aspect_type_id of
             Some e \<Rightarrow> (Inl e, w)
           | None \<Rightarrow>
               (Inr (), w\<lparr>aspect_types := aspect_types w
                  @ [''projects/'' @ project_id E @ ''/locations/global/aspectTypes/''
                       @ aspect_type_id]\<rparr>))"

subsection \<open>Generating the description of a table and of its columns\<close>

definition description_value :: "string option \<Rightarrow> pvalue" where
  "description_value v = (case v of None \<Rightarrow> PNull | Some s \<Rightarrow> PString s)"

text \<open>\<^verbatim>\<open>if documentation_uri == "": documentation_uri = None\<close>\<close>

definition empty_to_none :: "string option \<Rightarrow> string option" where
  "empty_to_none documentation_uri =
     (if documentation_uri = Some [] then None else documentation_uri)"

definition generate_table_description ::
  "env \<Rightarrow> string \<Rightarrow> string option \<Rightarrow> string list option \<Rightarrow> string act" where
  "generate_table_description E table_fqn documentation_uri human_comments =
     bindM (table_exists table_fqn) (\<lambda>_.
     bindM (get_table_schema table_fqn) (\<lambda>(table_schema_str, _).
     bindM (lift (get_table_sample E table_fqn (NUM_ROWS_TO_SAMPLE E))) (\<lambda>table_sample.
     bindM get_options (\<lambda>opts.
     bindM (get_table_quality E (use_data_quality opts) table_fqn) (\<lambda>table_quality.
     bindM get_options (\<lambda>opts.
     bindM (get_table_profile E (use_profile opts) table_fqn) (\<lambda>table_profile.
     bindM get_options (\<lambda>opts.
     bindM (get_table_sources_info E (use_lineage_tables opts) table_fqn)
       (\<lambda>table_sources_info.
     bindM get_options (\<lambda>opts.
     bindM (get_job_sources E (use_lineage_processes opts) table_fqn) (\<lambda>job_sources_info.
     bindM get_options (\<lambda>opts.
     bindM (lift (format_prompt E (get_promtp (PROMPTS E) PROMPT_TYPE_TABLE opts)
                    \<lparr>ctx_column_name = None, ctx_table_fqn = table_fqn,
                     ctx_table_schema_str = table_schema_str,
                     ctx_table_sample = table_sample,
                     ctx_table_profile = TableProfile table_profile,
                     ctx_table_quality = table_quality,
                     ctx_table_sources_info = table_sources_info,
                     ctx_job_sources_info = job_sources_info,
                     ctx_human_comments = human_comments\<rparr>))
       (\<lambda>table_description_prompt_expanded.
     bindM (llm_inference E table_description_prompt_expanded (empty_to_none documentation_uri))
       (\<lambda>generated.
     bindM get_options (\<lambda>opts.
     bindM (ret (if add_ai_warning opts then PString (AI_WARNING E @ py_str generated)
                 else description_value generated))
       (\<lambda>table_description.
     bindM get_options (\<lambda>opts.
     bindM (if \<not> stage_for_review opts then
              bindM (update_table_bq_description E table_fqn table_description) (\<lambda>_.
              bindM get_options (\<lambda>opts.
                if persist_to_dataplex_catalog opts
                then bindM (update_table_dataplex_description E table_fqn table_description)
                       (\<lambda>_. ret ())
                else ret ()))
            else
              bindM (check_if_exists_aspect_type E (ASPECT_TEMPLATE_name E)) (\<lambda>exists.
              bindM (if \<not> exists then create_aspect_type E (ASPECT_TEMPLATE_name E)
                     else ret ())
                (\<lambda>_.
              bindM (update_table_draft_description E table_fqn table_description)
                (\<lambda>_. ret ()))))
       (\<lambda>_. ret ''Table description generated successfully''))))))))))))))))))"

text \<open>
  The handler of \<^verbatim>\<open>generate_columns_descriptions\<close> is also \<^verbatim>\<open>raise e(message=...)\<close>.
\<close>

definition generate_columns_descriptions ::
  "env \<Rightarrow> string \<Rightarrow> string option \<Rightarrow> string list option \<Rightarrow> unit act" where
  "generate_columns_descriptions E table_fqn documentation_uri human_comments =
     catch
       (bindM (table_exists table_fqn) (\<lambda>_.
        bindM (get_table_schema table_fqn) (\<lambda>(table_schema_str, table_schema).
        bindM (lift (get_table_sample E table_fqn (NUM_ROWS_TO_SAMPLE E))) (\<lambda>table_sample.
        bindM get_options (\<lambda>opts.
        bindM (get_table_quality E (use_data_quality opts) table_fqn) (\<lambda>table_quality.
        bindM get_options (\<lambda>opts.
        bindM (get_table_profile E (use_profile opts) table_fqn) (\<lambda>table_profile.
        bindM get_options (\<lambda>opts.
        bindM (get_table_sources_info E (use_lineage_tables opts) table_fqn)
          (\<lambda>table_sources_info.
        bindM get_options (\<lambda>opts.
        bindM (get_job_sources E (use_lineage_processes opts) table_fqn) (\<lambda>job_sources_info.
        bindM get_options (\<lambda>opts.
        bindM (ret (get_promtp (PROMPTS E) PROMPT_TYPE_COLUMN opts))
          (\<lambda>column_description_prompt.
        bindM (collect table_schema (\<lambda>column.
                 bindM (lift (format_prompt E column_description_prompt
                                \<lparr>ctx_column_name = Some (name column),
                                 ctx_table_fqn = table_fqn,
                                 ctx_table_schema_str = table_schema_str,
                                 ctx_table_sample = table_sample,
                                 ctx_table_profile =
                                   ColumnInfo (extract_column_info E table_profile (name column)),
                                 ctx_table_quality = table_quality,
                                 ctx_table_sources_info = table_sources_info,
                                 ctx_job_sources_info = job_sources_info,
                                 ctx_human_comments = human_comments\<rparr>))
                   (\<lambda>column_description_prompt_expanded.
                 bindM (llm_inference E column_description_prompt_expanded
                          (empty_to_none documentation_uri))
                   (\<lambda>generated.
                 bindM get_options (\<lambda>opts.
                 lift (get_updated_column E column
                         (if add_ai_warning opts then PString (AI_WARNING E @ py_str generated)
                          else description_value generated)))))))
          (\<lambda>updated_schema. update_table_schema E table_fqn updated_schema)))))))))))))))
       (\<lambda>e. raise TypeError)"

subsection \<open>Accepting a draft\<close>

text \<open>
  The loops of the accept methods assign \<^verbatim>\<open>overview\<close> from every aspect that passes the
  test and has the key \<^verbatim>\<open>contents\<close>. In \<^verbatim>\<open>accept_table_draft_description\<close> the variable
  is unbound before the loop (\<open>None\<close> here); in \<^verbatim>\<open>accept_column_draft_description\<close> it
  starts as \<^verbatim>\<open>None\<close> (\<open>PNull\<close>).
\<close>

definition table_draft_overview :: "env \<Rightarrow> (string \<times> aspect) list \<Rightarrow> pvalue option" where
  "table_draft_overview E aspects =
     foldl (\<lambda>overview (key, a).
              if endswith (aspect_type a) (''aspectTypes/'' @ ASPECT_TEMPLATE_name E)
              then (case data a ''contents'' of Some v \<Rightarrow> Some v | None \<Rightarrow> overview)
              else overview)
           None aspects"

definition accept_table_draft_description :: "env \<Rightarrow> string \<Rightarrow> unit act" where
  "accept_table_draft_description E table_fqn =
     bindM (lift (split_table_fqn E table_fqn)) (\<lambda>(project, dataset_id, table_id).
     bindM (lift (get_dataset_location E table_fqn)) (\<lambda>location.
     bindM (get_entry (entry_name_of project location dataset_id table_id)
              [draft_aspect_type E, overview_aspect_type])
       (\<lambda>aspects.
          case table_draft_overview E aspects of
            None \<Rightarrow> raise UnboundLocalError
          | Some overview \<Rightarrow>
              bindM (update_table_dataplex_description E table_fqn overview) (\<lambda>_.
              update_table_bq_description E table_fqn overview))))"

definition column_draft_overview :: "env \<Rightarrow> string \<Rightarrow> (string \<times> aspect) list \<Rightarrow> pvalue" where
  "column_draft_overview E column_name aspects =
     foldl (\<lambda>overview (key, a).
              if endswith (aspect_type a) (''aspectTypes/'' @ ASPECT_TEMPLATE_name E)
                 \<and> endswith (path a) (''Schema.'' @ column_name)
              then (case data a ''contents'' of Some v \<Rightarrow> v | None \<Rightarrow> overview)
              else overview)
           PNull aspects"

definition accept_column_draft_description :: "env \<Rightarrow> string \<Rightarrow> string \<Rightarrow> unit act" where
  "accept_column_draft_description E table_fqn column_name =
     bindM (lift (split_table_fqn E table_fqn)) (\<lambda>(project, dataset_id, table_id).
     bindM (lift (get_dataset_location E table_fqn)) (\<lambda>location.
     bindM (catch (get_entry (entry_name_of project location dataset_id table_id)
                     [draft_aspect_type E]) raise)
       (\<lambda>aspects.
          update_column_bq_description E table_fqn column_name
            (column_draft_overview E column_name aspects))))"

subsection \<open>Generating for a whole dataset\<close>

text \<open>
  \<^verbatim>\<open>_get_tables_from_uri\<close>: the storage client is made first, then the URI is split,
  which on \<^verbatim>\<open>None\<close> raises \<^verbatim>\<open>AttributeError\<close>.
\<close>

definition get_tables_from_uri :: "env \<Rightarrow> string option \<Rightarrow> (string \<times> string) list act" where
  "get_tables_from_uri E documentation_csv_uri =
     catch (case storage_client E of
              Some e \<Rightarrow> raise e
            | None \<Rightarrow>
                (case documentation_csv_uri of
                   None \<Rightarrow> raise AttributeError
                 | Some uri \<Rightarrow> lift (read_mapping E uri)))
           raise"

text \<open>
  The values that \<^verbatim>\<open>in\<close> compares in the batch method: a table of the dataset is a
  string, a row of the mapping is a pair of strings, and a pair never equals a string.
\<close>

datatype pyobj = Str string | Tuple string string

definition generate_dataset_tables_descriptions ::
  "env \<Rightarrow> string \<Rightarrow> string \<Rightarrow> string option \<Rightarrow> unit act" where
  "generate_dataset_tables_descriptions E dataset_fqn strategy_name documentation_csv_uri =
     catch
       (case GENERATION_STRATEGY strategy_name of
          None \<Rightarrow> raise ValueError
        | Some int_strategy \<Rightarrow>
            bindM (if int_strategy = DOCUMENTED \<and> documentation_csv_uri = None
                   then raise ValueError else ret ())
              (\<lambda>_.
            bindM (lift (list_tables_in_dataset E dataset_fqn)) (\<lambda>tables.
            bindM (if int_strategy = DOCUMENTED then
                     bindM (get_tables_from_uri E documentation_csv_uri) (\<lambda>tables_from_uri.
                     for_each tables_from_uri (\<lambda>table.
                       if Str (fst table) \<notin> set (map Str tables) then raise ValueError
                       else bindM (generate_table_description E (fst table) (Some (snd table))
                                     None)
                              (\<lambda>_. ret ())))
                   else ret ())
              (\<lambda>_.
            bindM (if int_strategy = DOCUMENTED_THEN_REST then
                     bindM (get_tables_from_uri E documentation_csv_uri) (\<lambda>tables_from_uri.
                     bindM (for_each tables_from_uri (\<lambda>table.
                              if Tuple (fst table) (snd table) \<notin> set (map Str tables)
                              then raise ValueError
                              else bindM (generate_table_description E (fst table)
                                            (Some (snd table)) None)
                                     (\<lambda>_. ret ())))
                       (\<lambda>_.
                     for_each tables (\<lambda>table.
                       if table \<notin> set (map fst tables_from_uri)
                       then bindM (generate_table_description E table None None) (\<lambda>_. ret ())
                       else ret ())))
                   else ret ())
              (\<lambda>_.
            if int_strategy \<in> set [NAIVE, RANDOM, ALPHABETICAL] then
              for_each (order_tables_to_strategy (randbelow E) tables int_strategy) (\<lambda>table.
                bindM (generate_table_description E table None None) (\<lambda>_. ret ()))
            else ret ())))))
       raise"

subsection \<open>Notions used to state the properties\<close>

text \<open>The outcome of the underlying model call at a given attempt.\<close>

definition attempt_outcome ::
  "env \<Rightarrow> world \<Rightarrow> string \<Rightarrow> string option \<Rightarrow> nat \<Rightarrow> error + string" where
  "attempt_outcome E w prompt documentation_uri attempt =
     generate_content E (use_ext_documents (options w)) prompt documentation_uri attempt"

text \<open>
  Generating for the rows of a mapping one after the other, with no validation: what
  it means that generation has been done for exactly these rows.
\<close>

definition generate_rows :: "env \<Rightarrow> (string \<times> string) list \<Rightarrow> unit act" where
  "generate_rows E rows =
     for_each rows (\<lambda>table.
       bindM (generate_table_description E (fst table) (Some (snd table)) None) (\<lambda>_. ret ()))"

text \<open>A column descriptor with its description replaced by a truncated text.\<close>

definition with_description :: "env \<Rightarrow> string \<Rightarrow> schema_field \<Rightarrow> schema_field" where
  "with_description E s column =
     SchemaField (name column) (field_type column) (mode column)
       (default_value_expression column) (Some (take (MAX_COLUMN_DESC_LENGTH E) s))
       (schema_field.fields column) (policy_tags column) (precision column) None
       (max_length column) None"

text \<open>
  How the options after a call may differ from the options before it: six flags are the
  same, and the two lineage flags are not raised.
\<close>

definition flags_only_lowered :: "client_options \<Rightarrow> client_options \<Rightarrow> bool" where
  "flags_only_lowered before after =
     (use_profile after = use_profile before
      \<and> use_data_quality after = use_data_quality before
      \<and> use_ext_documents after = use_ext_documents before
      \<and> persist_to_dataplex_catalog after = persist_to_dataplex_catalog before
      \<and> stage_for_review after = stage_for_review before
      \<and> add_ai_warning after = add_ai_warning before
      \<and> (use_lineage_tables after \<longrightarrow> use_lineage_tables before)
      \<and> (use_lineage_processes after \<longrightarrow> use_lineage_processes before))"

definition lowers :: "'a act \<Rightarrow> bool" where
  "lowers m = (\<forall>w. flags_only_lowered (options w) (options (snd (m w))))"

named_theorems lowers_intros

subsection \<open>A small dataset to run the methods on\<close>

definition example_columns :: "schema_field list" where
  "example_columns =
     [SchemaField ''id'' ''INTEGER'' ''REQUIRED'' None None [] None None None None None,
      SchemaField ''tags'' ''RECORD'' ''REPEATED'' None (Some ''old'')
        [SchemaField ''label'' ''STRING'' ''NULLABLE'' None None [] None None None (Some 64) None]
        (Some [''pii'']) None None None None]"

definition example_env :: env where
  "example_env =
     \<lparr>PROMPTS = letter_prompts, NUM_ROWS_TO_SAMPLE = 5, MAX_COLUMN_DESC_LENGTH = 8,
      AI_WARNING = ''AI: '', ASPECT_TEMPLATE_name = ''draft'', project_id = ''p'',
      now = ''2024-01-01T00:00:00Z'', randbelow = (\<lambda>n. 0),
      list_tables_in_dataset = (\<lambda>dataset. Inr [''p.d.a'', ''p.d.b'']),
      storage_client = None,
      read_mapping = (\<lambda>uri. Inr [(''p.d.a'', ''gs://docs/a.pdf''),
                                   (''p.d.zz'', ''gs://docs/zz.pdf'')]),
      split_table_fqn = (\<lambda>table_fqn. Inr (''p'', ''d'', drop 4 table_fqn)),
      get_dataset_location = (\<lambda>table_fqn. Inr ''us''),
      get_table_sample = (\<lambda>table_fqn n. Inr ''[]''),
      scan_results = (\<lambda>table_fqn. Inr ([], [])),
      get_table_sources = (\<lambda>table_fqn. Inr []),
      search_links = (\<lambda>table_fqn location. Inr []),
      batch_search_link_processes = (\<lambda>location links. Inr []),
      get_process = (\<lambda>process_id. Inr Map.empty),
      bq_job_info = (\<lambda>job location. Inr []),
      extract_column_info = (\<lambda>profile column. None),
      format_prompt = (\<lambda>template ctx. Inr (template @ '' '' @ ctx_table_fqn ctx)),
      generate_content = (\<lambda>vision prompt document attempt. Inr ''text''),
      update_table_error = (\<lambda>table_fqn. None),
      update_entry_error = (\<lambda>entry_name. None),
      create_aspect_type_error = (\<lambda>aspect_type_id. None)\<rparr>"

definition example_table :: bq_table where
  "example_table = \<lparr>table_schema = example_columns, table_description = None\<rparr>"

definition example_world :: world where
  "example_world =
     \<lparr>options = default_client_options,
      bq_tables = [''p.d.a'' \<mapsto> example_table, ''p.d.b'' \<mapsto> example_table],
      catalog = [entry_name_of ''p'' ''us'' ''d'' ''a'' \<mapsto> [],
                 entry_name_of ''p'' ''us'' ''d'' ''b'' \<mapsto> []],
      aspect_types = [], slept = []\<rparr>"

text \<open>A table with a column of type NUMERIC(10, 2).\<close>

definition priced_columns :: "schema_field list" where
  "priced_columns =
     [SchemaField ''id'' ''INTEGER'' ''REQUIRED'' None None [] None None None None None,
      SchemaField ''price'' ''NUMERIC'' ''NULLABLE'' None (Some ''old'') [] None
        (Some 10) (Some 2) None None]"

definition priced_world :: world where
  "priced_world =
     example_world\<lparr>bq_tables :=
       [''p.d.a'' \<mapsto> \<lparr>table_schema = priced_columns, table_description = None\<rparr>]\<rparr>"


text \<open>A model that fails twice and then answers, and one that always fails.\<close>

definition flaky_env :: env where
  "flaky_env =
     example_env\<lparr>generate_content := (\<lambda>vision prompt document attempt.
        if attempt < 2 then Inl (ApiError ''unavailable'') else Inr ''text'')\<rparr>"

definition failing_env :: env where
  "failing_env =
     example_env\<lparr>generate_content := (\<lambda>vision prompt document attempt.
        Inl (ApiError (''unavailable '' @ replicate attempt CHR ''!'')))\<rparr>"

text \<open>
  An entry with a draft at table scope, carrying a human comment, and a draft for the
  column \<^verbatim>\<open>id\<close>.
\<close>

definition table_draft :: aspect where
  "table_draft =
     \<lparr>aspect_type = ''projects/p/locations/global/aspectTypes/draft'', path = [],
      data = [''contents'' \<mapsto> PString ''X'',
              ''human-comments'' \<mapsto> PStrings [''too vague'']]\<rparr>"

definition column_draft :: aspect where
  "column_draft =
     \<lparr>aspect_type = ''projects/p/locations/global/aspectTypes/draft'', path = ''Schema.id'',
      data = [''contents'' \<mapsto> PString ''Y'']\<rparr>"

definition drafted_aspects :: "(string \<times> aspect) list" where
  "drafted_aspects =
     [(''p.global.draft'', table_draft), (''p.global.draft@Schema.id'', column_draft)]"

definition drafted_world :: world where
  "drafted_world =
     example_world\<lparr>catalog := [entry_name_of ''p'' ''us'' ''d'' ''a'' \<mapsto> drafted_aspects]\<rparr>"

section \<open>Properties\<close>

subsection \<open>Prompt assembly\<close>

text \<open>
  C6, as amended. For every assignment of the flags, the prompt of kind TABLE or COLUMN
  is the concatenation, in this order, of: system preamble; base instruction of the
  kind; profile clause iff \<open>use_profile\<close>; quality clause iff \<open>use_data_quality\<close>;
  lineage-tables clause iff \<open>use_lineage_tables\<close>; lineage-processes clause iff
  \<open>use_lineage_processes\<close>; for TABLE only, document clause iff \<open>use_ext_documents\<close>;
  for TABLE only, the generation-base clause; for TABLE only, lineage-generation clause
  iff lineage tables or processes are enabled; output-format clause. The assembly is a
  function of the constants and the flags alone.
\<close>

theorem prompt_is_ordered_concatenation:
  "get_promtp P kind opts = spec_prompt_amended P kind opts"
  by (cases kind)
    (simp_all add: get_prompt_table_def get_prompt_columns_def spec_prompt_amended_def
      spec_fragments_def Let_def)

text \<open>
  C6 as stated puts the generation-base clause in the prompt of kind COLUMN too; with
  one-letter fragments and the default flags the column prompt is \<open>SCO\<close>, not \<open>SCGO\<close>.
\<close>

theorem column_prompt_has_no_generation_base:
  "get_promtp letter_prompts PROMPT_TYPE_COLUMN default_client_options = ''SCO''
   \<and> spec_prompt letter_prompts PROMPT_TYPE_COLUMN default_client_options = ''SCGO''
   \<and> get_promtp letter_prompts PROMPT_TYPE_COLUMN default_client_options
       \<noteq> spec_prompt letter_prompts PROMPT_TYPE_COLUMN default_client_options"
  by (simp add: get_prompt_columns_def spec_prompt_def spec_fragments_def Let_def
      letter_prompts_def default_client_options_def)

subsection \<open>Ordering the tables\<close>

lemma mset_swap_list:
  "i < length xs \<Longrightarrow> j < length xs \<Longrightarrow> mset (swap i j xs) = mset xs"
  unfolding swap_def by (simp add: mset_swap)

lemma length_swap: "length (swap i j xs) = length xs"
  by (simp add: swap_def)

lemma mset_shuffle_from: "k < length xs \<Longrightarrow> mset (shuffle_from rb k xs) = mset xs"
proof (induction k arbitrary: xs)
  case 0
  then show ?case by simp
next
  case (Suc k)
  let ?j = "rb (Suc (Suc k)) mod Suc (Suc k)"
  have "?j < Suc (Suc k)" by simp
  with Suc.prems have j: "?j < length xs" by linarith
  have "mset (shuffle_from rb k (swap (Suc k) ?j xs)) = mset (swap (Suc k) ?j xs)"
    using Suc.prems by (intro Suc.IH) (simp add: length_swap)
  also have "\<dots> = mset xs"
    using Suc.prems j by (simp add: mset_swap_list)
  finally show ?case by simp
qed

lemma mset_shuffle: "mset (shuffle rb xs) = mset xs"
proof (cases xs)
  case Nil
  then show ?thesis by (simp add: shuffle_def)
next
  case (Cons x rest)
  then show ?thesis by (simp add: shuffle_def mset_shuffle_from)
qed

text \<open>
  The swap loop is a shuffle: it can produce every arrangement of the list. The step
  for position \<open>k + 1\<close> reads the generator at \<open>k + 2\<close> only, so the choices for the
  positions below it can be made afterwards.
\<close>

lemma shuffle_from_cong:
  "(\<And>n. n \<le> Suc k \<Longrightarrow> rb n = rb' n) \<Longrightarrow> shuffle_from rb k xs = shuffle_from rb' k xs"
proof (induction k arbitrary: xs)
  case 0
  then show ?case by simp
next
  case (Suc k)
  have top: "rb (Suc (Suc k)) = rb' (Suc (Suc k))" by (rule Suc.prems) simp
  have ih: "shuffle_from rb k ys = shuffle_from rb' k ys" for ys :: "'a list"
  proof (rule Suc.IH)
    fix n
    assume "n \<le> Suc k"
    then have "n \<le> Suc (Suc k)" by simp
    then show "rb n = rb' n" by (rule Suc.prems)
  qed
  show ?case by (simp add: top ih)
qed

lemma agree_but_first:
  assumes "mset xs = mset ys" and "drop (Suc 0) xs = drop (Suc 0) ys"
  shows "xs = ys"
proof (cases xs)
  case Nil
  with assms(1) show ?thesis by simp
next
  case (Cons x xs')
  with assms(1) obtain y ys' where ys: "ys = y # ys'" by (cases ys) auto
  with Cons assms(2) have "xs' = ys'" by simp
  with Cons ys assms(1) show ?thesis by simp
qed

lemma mset_take_drop: "mset xs = mset (take n xs) + mset (drop n xs)"
proof -
  have "mset (take n xs @ drop n xs) = mset (take n xs) + mset (drop n xs)"
    by (rule mset_append)
  then show ?thesis by simp
qed

lemma shuffle_from_reaches:
  assumes "mset xs = mset ys" and "drop (Suc k) xs = drop (Suc k) ys"
    and "k < length xs"
  shows "\<exists>rb. shuffle_from rb k xs = ys"
  using assms
proof (induction k arbitrary: xs)
  case 0
  from "0.prems"(1,2) have "xs = ys" by (rule agree_but_first)
  then show ?case by simp
next
  case (Suc k)
  from Suc.prems(3) have k: "Suc k < length xs" .
  from Suc.prems(1) have len: "length ys = length xs" by (rule mset_eq_length [symmetric])
  have "mset (take (Suc (Suc k)) xs) + mset (drop (Suc (Suc k)) xs)
        = mset (take (Suc (Suc k)) ys) + mset (drop (Suc (Suc k)) ys)"
    using Suc.prems(1) mset_take_drop [of xs "Suc (Suc k)"] mset_take_drop [of ys "Suc (Suc k)"]
    by simp
  then have heads: "mset (take (Suc (Suc k)) xs) = mset (take (Suc (Suc k)) ys)"
    by (simp only: Suc.prems(2) add_right_cancel)
  have "ys ! Suc k = take (Suc (Suc k)) ys ! Suc k" by simp
  moreover have "Suc k < length (take (Suc (Suc k)) ys)" using k len by simp
  ultimately have "ys ! Suc k \<in> set (take (Suc (Suc k)) ys)"
    by (simp only: nth_mem)
  then have "ys ! Suc k \<in># mset (take (Suc (Suc k)) ys)" by simp
  then have "ys ! Suc k \<in># mset (take (Suc (Suc k)) xs)" by (simp only: heads)
  then have "ys ! Suc k \<in> set (take (Suc (Suc k)) xs)" by simp
  then obtain j where j0: "j < length (take (Suc (Suc k)) xs)"
    "take (Suc (Suc k)) xs ! j = ys ! Suc k"
    by (auto simp only: in_set_conv_nth)
  then have j: "j < Suc (Suc k)" "j < length xs" "xs ! j = ys ! Suc k"
    by simp_all
  let ?xs = "swap (Suc k) j xs"
  have 1: "mset ?xs = mset ys"
    using k j Suc.prems(1) by (simp add: mset_swap_list)
  have at: "?xs ! Suc k = ys ! Suc k"
    using k j by (cases "j = Suc k") (simp_all add: swap_def)
  have above: "drop (Suc (Suc k)) ?xs = drop (Suc (Suc k)) ys"
    using j Suc.prems(2) by (simp add: swap_def)
  have "drop (Suc k) ?xs = ?xs ! Suc k # drop (Suc (Suc k)) ?xs"
    using k by (simp add: Cons_nth_drop_Suc length_swap)
  also have "\<dots> = ys ! Suc k # drop (Suc (Suc k)) ys"
    by (simp only: at above)
  also have "\<dots> = drop (Suc k) ys"
    using k len by (simp add: Cons_nth_drop_Suc)
  finally have 2: "drop (Suc k) ?xs = drop (Suc k) ys" .
  have 3: "k < length ?xs"
    using k by (simp add: length_swap)
  from Suc.IH [OF 1 2 3] obtain rb where rb: "shuffle_from rb k ?xs = ys" by blast
  let ?rb = "rb(Suc (Suc k) := j)"
  have "shuffle_from ?rb k ?xs = shuffle_from rb k ?xs"
    by (rule shuffle_from_cong) simp
  with rb j(1) have "shuffle_from ?rb (Suc k) xs = ys" by simp
  then show ?case by blast
qed

lemma shuffle_reaches:
  assumes "mset ys = mset xs"
  shows "\<exists>rb. shuffle rb xs = ys"
proof (cases xs)
  case Nil
  with assms show ?thesis by (simp add: shuffle_def)
next
  case (Cons x rest)
  have "length ys = length xs" using assms by (rule mset_eq_length)
  with Cons have d: "drop (Suc (length xs - 1)) xs = drop (Suc (length xs - 1)) ys" by simp
  have m: "mset xs = mset ys" using assms by simp
  have l: "length xs - 1 < length xs" using Cons by simp
  from shuffle_from_reaches [OF m d l] show ?thesis by (simp add: shuffle_def)
qed

text \<open>
  C10. For every list of tables, NAIVE returns the list itself and ALPHABETICAL returns
  it sorted in the lexicographic order of the names. RANDOM returns a shuffle: whatever
  the random generator gives, the result has the elements of the input with the same
  multiplicities, and every arrangement of the input is the result for some run of the
  generator. So the three results are permutations of one another and of the input: only
  the order differs.
\<close>

theorem strategies_permute_the_tables:
  "order_tables_to_strategy rb tables NAIVE = tables
   \<and> order_tables_to_strategy rb tables ALPHABETICAL = sort tables
   \<and> sorted (order_tables_to_strategy rb tables ALPHABETICAL)
   \<and> mset (order_tables_to_strategy rb tables NAIVE) = mset tables
   \<and> mset (order_tables_to_strategy rb tables ALPHABETICAL) = mset tables
   \<and> mset (order_tables_to_strategy rb tables RANDOM) = mset tables
   \<and> (\<forall>arranged. mset arranged = mset tables \<longrightarrow>
         (\<exists>generator. order_tables_to_strategy generator tables RANDOM = arranged))"
proof -
  have "\<exists>generator. order_tables_to_strategy generator tables RANDOM = arranged"
    if "mset arranged = mset tables" for arranged
    using shuffle_reaches [OF that] by (simp add: order_tables_to_strategy_def)
  then show ?thesis
    by (simp add: order_tables_to_strategy_def mset_shuffle)
qed

text \<open>
  On three tables given as \<^verbatim>\<open>c, a, b\<close>: a generator that always answers 0 gives
  \<^verbatim>\<open>a, b, c\<close>, and some generator gives \<^verbatim>\<open>b, c, a\<close>, an order that is neither the
  input's nor the sorted one.
\<close>

theorem strategies_permute_the_tables_witness:
  "order_tables_to_strategy (\<lambda>n. 0) [''p.d.c'', ''p.d.a'', ''p.d.b''] RANDOM
     = [''p.d.a'', ''p.d.b'', ''p.d.c'']
   \<and> mset [''p.d.b'', ''p.d.c'', ''p.d.a''] = mset [''p.d.c'', ''p.d.a'', ''p.d.b'']
   \<and> (\<exists>generator. order_tables_to_strategy generator [''p.d.c'', ''p.d.a'', ''p.d.b''] RANDOM
         = [''p.d.b'', ''p.d.c'', ''p.d.a''])"
proof -
  have arranged: "mset [''p.d.b'', ''p.d.c'', ''p.d.a''] = mset [''p.d.c'', ''p.d.a'', ''p.d.b'']"
    by simp
  have run: "order_tables_to_strategy (\<lambda>n. 0) [''p.d.c'', ''p.d.a'', ''p.d.b''] RANDOM
     = [''p.d.a'', ''p.d.b'', ''p.d.c'']"
    by (simp add: order_tables_to_strategy_def shuffle_def swap_def numeral_2_eq_2)
  from arranged
    strategies_permute_the_tables [of "\<lambda>n. 0" "[''p.d.c'', ''p.d.a'', ''p.d.b'']"]
  have "\<exists>generator. order_tables_to_strategy generator [''p.d.c'', ''p.d.a'', ''p.d.b''] RANDOM
         = [''p.d.b'', ''p.d.c'', ''p.d.a'']"
    by blast
  with arranged run show ?thesis by blast
qed

subsection \<open>Retries of the model call\<close>

lemma range_retries: "[0..<retries + 1] = [0, 1, 2, 3]"
  by (simp add: retries_def upt_rec)

lemma llm_attempt_step:
  "llm_attempts E p d (k # rest) w =
     (case attempt_outcome E w p d k of
        Inr reply \<Rightarrow> (Inr (Some reply), w)
      | Inl e \<Rightarrow> if k = retries then (Inl e, w)
                 else llm_attempts E p d rest (w\<lparr>slept := slept w @ [base_delay * 2 ^ k]\<rparr>))"
  by (simp add: catch_def bindM_def get_options_def lift_def ret_def raise_def sleep_def
      attempt_outcome_def split: sum.splits)

lemma attempt_outcome_slept [simp]:
  "attempt_outcome E (w\<lparr>slept := s\<rparr>) p d k = attempt_outcome E w p d k"
  by (simp add: attempt_outcome_def)

lemma llm_inference_cascade:
  "llm_inference E p d w =
     (case attempt_outcome E w p d 0 of
        Inr reply \<Rightarrow> (Inr (Some reply), w)
      | Inl _ \<Rightarrow>
     (case attempt_outcome E w p d 1 of
        Inr reply \<Rightarrow> (Inr (Some reply), w\<lparr>slept := slept w @ [1]\<rparr>)
      | Inl _ \<Rightarrow>
     (case attempt_outcome E w p d 2 of
        Inr reply \<Rightarrow> (Inr (Some reply), w\<lparr>slept := slept w @ [1, 2]\<rparr>)
      | Inl _ \<Rightarrow>
     (case attempt_outcome E w p d 3 of
        Inr reply \<Rightarrow> (Inr (Some reply), w\<lparr>slept := slept w @ [1, 2, 4]\<rparr>)
      | Inl e \<Rightarrow> (Inl e, w\<lparr>slept := slept w @ [1, 2, 4]\<rparr>)))))"
  unfolding llm_inference_def range_retries
  by (simp add: llm_attempt_step retries_def base_delay_def del: llm_attempts.simps(2)
      split: sum.splits)

text \<open>
  C5. Whatever the outcomes of the underlying model call: if attempt \<open>k\<close> is the first to
  succeed among the first four (numbered from 0), inference returns its text, having
  slept 1, 2, ... seconds after the \<open>k\<close> failures before it; if the four attempts fail,
  it raises the error of the fourth, having slept 1, 2 and 4 seconds, 7 at least in
  total; and what a fifth or later attempt would give changes nothing, so there are at
  most four attempts.
\<close>

theorem llm_inference_retry_bound:
  "(\<forall>k reply. k < 4 \<and> (\<forall>j<k. isl (attempt_outcome E w p d j))
        \<and> attempt_outcome E w p d k = Inr reply
      \<longrightarrow> llm_inference E p d w
            = (Inr (Some reply), w\<lparr>slept := slept w @ map (\<lambda>j. 2 ^ j) [0..<k]\<rparr>))
   \<and> ((\<forall>j<4. isl (attempt_outcome E w p d j))
      \<longrightarrow> llm_inference E p d w
            = (Inl (projl (attempt_outcome E w p d 3)), w\<lparr>slept := slept w @ [1, 2, 4]\<rparr>)
          \<and> sum_list (slept w) + 7 \<le> sum_list (slept (snd (llm_inference E p d w))))
   \<and> (\<forall>g. (\<forall>u k. k < 4 \<longrightarrow> g u p d k = generate_content E u p d k)
      \<longrightarrow> llm_inference (E\<lparr>generate_content := g\<rparr>) p d w = llm_inference E p d w)"
proof (intro conjI allI impI)
  fix k reply
  assume a: "k < 4 \<and> (\<forall>j<k. isl (attempt_outcome E w p d j))
    \<and> attempt_outcome E w p d k = Inr reply"
  then have failed: "\<And>j. j < k \<Longrightarrow> \<exists>e. attempt_outcome E w p d j = Inl e"
    by (auto simp: isl_def)
  from a have "k = 0 \<or> k = Suc 0 \<or> k = 2 \<or> k = 3" by auto
  then show "llm_inference E p d w
            = (Inr (Some reply), w\<lparr>slept := slept w @ map (\<lambda>j. 2 ^ j) [0..<k]\<rparr>)"
  proof (elim disjE)
    assume "k = 0"
    with a show ?thesis by (simp add: llm_inference_cascade)
  next
    assume k: "k = Suc 0"
    with failed [of 0] obtain e0 where "attempt_outcome E w p d 0 = Inl e0" by auto
    with a k show ?thesis by (simp add: llm_inference_cascade)
  next
    assume k: "k = 2"
    with failed [of 0] failed [of "Suc 0"] obtain e0 e1 where
      "attempt_outcome E w p d 0 = Inl e0" "attempt_outcome E w p d (Suc 0) = Inl e1" by auto
    with a k show ?thesis by (simp add: llm_inference_cascade upt_rec)
  next
    assume k: "k = 3"
    with failed [of 0] failed [of "Suc 0"] failed [of 2] obtain e0 e1 e2 where
      "attempt_outcome E w p d 0 = Inl e0" "attempt_outcome E w p d (Suc 0) = Inl e1"
      "attempt_outcome E w p d 2 = Inl e2" by auto
    with a k show ?thesis by (simp add: llm_inference_cascade upt_rec)
  qed
next
  assume a: "\<forall>j<4. isl (attempt_outcome E w p d j)"
  then have failed: "\<And>j. j < 4 \<Longrightarrow> \<exists>e. attempt_outcome E w p d j = Inl e"
    by (auto simp: isl_def)
  from failed [of 0] failed [of "Suc 0"] failed [of 2] failed [of 3] obtain e0 e1 e2 e3 where
    "attempt_outcome E w p d 0 = Inl e0" "attempt_outcome E w p d (Suc 0) = Inl e1"
    "attempt_outcome E w p d 2 = Inl e2" "attempt_outcome E w p d 3 = Inl e3" by auto
  then show r: "llm_inference E p d w
            = (Inl (projl (attempt_outcome E w p d 3)), w\<lparr>slept := slept w @ [1, 2, 4]\<rparr>)"
    by (simp add: llm_inference_cascade)
  show "sum_list (slept w) + 7 \<le> sum_list (slept (snd (llm_inference E p d w)))"
    by (simp add: r)
next
  fix g
  assume "\<forall>u k. k < 4 \<longrightarrow> g u p d k = generate_content E u p d k"
  then have same:
    "attempt_outcome (E\<lparr>generate_content := g\<rparr>) w p d 0 = attempt_outcome E w p d 0"
    "attempt_outcome (E\<lparr>generate_content := g\<rparr>) w p d 1 = attempt_outcome E w p d 1"
    "attempt_outcome (E\<lparr>generate_content := g\<rparr>) w p d 2 = attempt_outcome E w p d 2"
    "attempt_outcome (E\<lparr>generate_content := g\<rparr>) w p d 3 = attempt_outcome E w p d 3"
    by (simp_all add: attempt_outcome_def)
  show "llm_inference (E\<lparr>generate_content := g\<rparr>) p d w = llm_inference E p d w"
    by (simp only: llm_inference_cascade same)
qed

text \<open>
  The bound at work: a model that fails twice is answered on the third attempt after
  sleeping 1 and 2 seconds; a model that always fails gives the fourth error after
  sleeping 1, 2 and 4 seconds.
\<close>

theorem llm_inference_retry_bound_witness:
  "llm_inference flaky_env ''prompt'' None example_world
     = (Inr (Some ''text''), example_world\<lparr>slept := [1, 2]\<rparr>)
   \<and> llm_inference failing_env ''prompt'' None example_world
     = (Inl (ApiError ''unavailable !!!''), example_world\<lparr>slept := [1, 2, 4]\<rparr>)"
proof
  have outcomes:
    "\<forall>j<2. isl (attempt_outcome flaky_env example_world ''prompt'' None j)"
    "attempt_outcome flaky_env example_world ''prompt'' None 2 = Inr ''text''"
    by (simp_all add: attempt_outcome_def flaky_env_def)
  have "[0..<2::nat] = [0, 1]" by (simp add: upt_rec)
  with outcomes
    llm_inference_retry_bound [of flaky_env example_world "''prompt''" None, THEN conjunct1,
      rule_format, of 2 "''text''"]
  show "llm_inference flaky_env ''prompt'' None example_world
     = (Inr (Some ''text''), example_world\<lparr>slept := [1, 2]\<rparr>)"
    by (simp add: example_world_def)
next
  have outcomes: "\<forall>j<4. isl (attempt_outcome failing_env example_world ''prompt'' None j)"
    by (simp add: attempt_outcome_def failing_env_def)
  have last: "attempt_outcome failing_env example_world ''prompt'' None 3
     = Inl (ApiError ''unavailable !!!'')"
    by (simp add: attempt_outcome_def failing_env_def numeral_3_eq_3)
  from outcomes last
    llm_inference_retry_bound [of failing_env example_world "''prompt''" None,
      THEN conjunct2, THEN conjunct1]
  show "llm_inference failing_env ''prompt'' None example_world
     = (Inl (ApiError ''unavailable !!!''), example_world\<lparr>slept := [1, 2, 4]\<rparr>)"
    by (simp add: example_world_def)
qed

subsection \<open>Rewriting the schema for one column\<close>

lemma collect_columns:
  "collect cols (\<lambda>column. if name column = c then lift (get_updated_column E column (PString s))
                          else ret column) w
   = (Inr (map (\<lambda>column. if name column = c then with_description E s column else column)
             cols), w)"
  by (induction cols)
    (simp_all add: bindM_def ret_def lift_def get_updated_column_def with_description_def)

lemma update_column_bq_description_run:
  assumes "bq_tables w t = Some tb" and "update_table_error E t = None"
  shows "update_column_bq_description E t c (PString s) w
     = (Inr (), w\<lparr>bq_tables := (bq_tables w)(t \<mapsto>
          tb\<lparr>table_schema := map (\<lambda>column. if name column = c then with_description E s column
                                            else column) (table_schema tb)\<rparr>)\<rparr>)"
  using assms
  by (simp add: update_column_bq_description_def table_exists_def get_table_schema_def
      update_table_schema_def update_table_def get_table_def bindM_def catch_def ret_def
      collect_columns)

text \<open>
  What the update of one column's description does to a schema: the columns of another
  name are copied as they are, in place, and with distinct names that is every column
  but the target. The target gets the description cut to the maximum length and keeps
  its name, type name, mode, default, sub-fields, policy tags, precision and maximum
  length; its scale and range element type are not passed on and become unset.
\<close>

lemma column_update_frame:
  assumes "bq_tables w t = Some tb" and "update_table_error E t = None"
    and "k < length (table_schema tb)"
  shows "\<exists>tb'. update_column_bq_description E t (name (table_schema tb ! k)) (PString d) w
             = (Inr (), w\<lparr>bq_tables := (bq_tables w)(t \<mapsto> tb')\<rparr>)
     \<and> table_description tb' = table_description tb
     \<and> length (table_schema tb') = length (table_schema tb)
     \<and> table_schema tb' ! k = with_description E d (table_schema tb ! k)
     \<and> description (table_schema tb' ! k) = Some (take (MAX_COLUMN_DESC_LENGTH E) d)
     \<and> name (table_schema tb' ! k) = name (table_schema tb ! k)
     \<and> field_type (table_schema tb' ! k) = field_type (table_schema tb ! k)
     \<and> mode (table_schema tb' ! k) = mode (table_schema tb ! k)
     \<and> schema_field.fields (table_schema tb' ! k) = schema_field.fields (table_schema tb ! k)
     \<and> policy_tags (table_schema tb' ! k) = policy_tags (table_schema tb ! k)
     \<and> precision (table_schema tb' ! k) = precision (table_schema tb ! k)
     \<and> max_length (table_schema tb' ! k) = max_length (table_schema tb ! k)
     \<and> scale (table_schema tb' ! k) = None
     \<and> range_element_type (table_schema tb' ! k) = None
     \<and> (\<forall>i<length (table_schema tb).
           name (table_schema tb ! i) \<noteq> name (table_schema tb ! k)
           \<longrightarrow> table_schema tb' ! i = table_schema tb ! i)
     \<and> (distinct (map name (table_schema tb)) \<longrightarrow>
          (\<forall>i<length (table_schema tb). i \<noteq> k
             \<longrightarrow> table_schema tb' ! i = table_schema tb ! i))"
proof -
  let ?c = "name (table_schema tb ! k)"
  let ?tb' = "tb\<lparr>table_schema :=
                  map (\<lambda>column. if name column = ?c then with_description E d column
                                else column) (table_schema tb)\<rparr>"
  have run: "update_column_bq_description E t ?c (PString d) w
             = (Inr (), w\<lparr>bq_tables := (bq_tables w)(t \<mapsto> ?tb')\<rparr>)"
    by (rule update_column_bq_description_run [OF assms(1,2)])
  have others: "\<forall>i<length (table_schema tb). name (table_schema tb ! i) \<noteq> ?c
           \<longrightarrow> table_schema ?tb' ! i = table_schema tb ! i"
    by simp
  have dist: "distinct (map name (table_schema tb)) \<longrightarrow>
          (\<forall>i<length (table_schema tb). i \<noteq> k
             \<longrightarrow> table_schema ?tb' ! i = table_schema tb ! i)"
  proof (intro impI allI)
    fix i
    assume d: "distinct (map name (table_schema tb))"
      and i: "i < length (table_schema tb)" "i \<noteq> k"
    from d i assms(3) nth_eq_iff_index_eq [of "map name (table_schema tb)" i k]
    have "name (table_schema tb ! i) \<noteq> ?c" by simp
    with others i show "table_schema ?tb' ! i = table_schema tb ! i" by blast
  qed
  show ?thesis
    apply (rule exI [of _ ?tb'])
    using run others dist assms(3) by (simp add: with_description_def)
qed

text \<open>
  C7. The update of one column's description should give a schema in which only that
  description differs: the target with its description replaced, every other column
  as it was. The other columns are as they were, but the target is rebuilt from nine of
  its attributes, and \<^verbatim>\<open>scale\<close> and \<^verbatim>\<open>range_element_type\<close> are not among them. On a
  table whose column \<^verbatim>\<open>price\<close> is NUMERIC with precision 10 and scale 2, the update
  of the description of \<^verbatim>\<open>price\<close> succeeds, cuts the text to 8 characters, leaves the
  column \<^verbatim>\<open>id\<close> as it was, and stores \<^verbatim>\<open>price\<close> with no scale: the stored column is
  not the original with its description replaced.
\<close>

theorem column_update_drops_scale:
  "bq_tables priced_world ''p.d.a''
     = Some \<lparr>table_schema = priced_columns, table_description = None\<rparr>
   \<and> priced_columns ! 1
       = SchemaField ''price'' ''NUMERIC'' ''NULLABLE'' None (Some ''old'') [] None
           (Some 10) (Some 2) None None
   \<and> fst (update_column_bq_description example_env ''p.d.a'' ''price''
            (PString ''The price'') priced_world) = Inr ()
   \<and> bq_tables (snd (update_column_bq_description example_env ''p.d.a'' ''price''
                       (PString ''The price'') priced_world)) ''p.d.a''
       = Some \<lparr>table_schema =
                  [priced_columns ! 0,
                   SchemaField ''price'' ''NUMERIC'' ''NULLABLE'' None (Some ''The pric'') []
                     None (Some 10) None None None],
                table_description = None\<rparr>
   \<and> SchemaField ''price'' ''NUMERIC'' ''NULLABLE'' None (Some ''The pric'') []
         None (Some 10) None None None
       \<noteq> SchemaField ''price'' ''NUMERIC'' ''NULLABLE'' None (Some ''The pric'') []
           None (Some 10) (Some 2) None None"
  by (simp add: update_column_bq_description_def get_updated_column_def
      update_table_schema_def update_table_def table_exists_def get_table_schema_def
      get_table_def bindM_def catch_def ret_def raise_def lift_def
      priced_world_def priced_columns_def example_world_def example_env_def)

subsection \<open>Evaluating the methods on the example\<close>

lemmas act_defs =
  bindM_def catch_def ret_def raise_def lift_def get_options_def set_options_def

lemmas read_defs =
  table_exists_def get_table_def get_table_schema_def get_table_description_def
  get_table_quality_def get_table_profile_def get_table_profile_quality_def
  get_table_sources_info_def get_job_sources_def

lemmas write_defs =
  update_table_bq_description_def update_table_def update_table_schema_def
  update_table_dataplex_description_def update_entry_def get_entry_def
  entry_name_of_def draft_aspect_type_def overview_aspect_type_def

lemmas example_defs =
  example_env_def example_world_def example_table_def example_columns_def
  default_client_options_def letter_prompts_def

lemma generate_table_description_example:
  "generate_table_description example_env ''p.d.a'' (Some ''gs://docs/a.pdf'') None
     example_world
   = (Inr ''Table description generated successfully'',
      example_world\<lparr>
        bq_tables := (bq_tables example_world)
          (''p.d.a'' \<mapsto> example_table\<lparr>table_description := Some ''AI: text''\<rparr>),
        catalog := (catalog example_world)
          (entry_name_of ''p'' ''us'' ''d'' ''a'' \<mapsto>
             [(''dataplex-types.global.overview'',
               \<lparr>aspect_type = overview_aspect_type, path = [],
                data = [''content'' \<mapsto> PString ''AI: text'']\<rparr>)])\<rparr>)"
  by (simp add: generate_table_description_def act_defs read_defs write_defs example_defs
      llm_inference_def retries_def upt_rec py_str_def empty_to_none_def)

subsection \<open>Validation of the documentation mapping\<close>

lemma documented_loop:
  assumes "\<forall>row\<in>set pre. fst row \<in> set tables" and "t \<notin> set tables"
  shows "for_each (pre @ (t, d) # post) (\<lambda>table.
           if Str (fst table) \<notin> set (map Str tables) then raise ValueError
           else bindM (generate_table_description E (fst table) (Some (snd table)) None)
                  (\<lambda>_. ret ())) w
         = (case generate_rows E pre w of
              (Inl e, w') \<Rightarrow> (Inl e, w')
            | (Inr u, w') \<Rightarrow> (Inl ValueError, w'))"
  using assms(1)
proof (induction pre arbitrary: w)
  case Nil
  from assms(2) have "Str t \<notin> Str ` set tables" by auto
  then show ?case by (simp add: generate_rows_def bindM_def raise_def ret_def)
next
  case (Cons row pre)
  then have "Str (fst row) \<in> Str ` set tables" by auto
  with Cons show ?case
    by (simp add: generate_rows_def bindM_def split: prod.splits sum.splits)
qed

lemma then_rest_loop:
  "for_each ((t, d) # rows) (\<lambda>table.
           if Tuple (fst table) (snd table) \<notin> set (map Str tables) then raise ValueError
           else bindM (generate_table_description E (fst table) (Some (snd table)) None)
                  (\<lambda>_. ret ())) w
         = (Inl ValueError, w)"
proof -
  have "Tuple t d \<notin> Str ` set tables" by auto
  then show ?thesis by (simp add: bindM_def raise_def)
qed

text \<open>
  Under DOCUMENTED_THEN_REST the test made on each row of the mapping compares the
  row, a pair, with the names of the tables, so it fails at the first row of every
  mapping that has one, whether its tables exist or not.
\<close>

lemma then_rest_rejects_every_mapping:
  assumes "list_tables_in_dataset E ds = Inr tables" and "storage_client E = None"
    and "read_mapping E uri = Inr (row # rows)"
  shows "generate_dataset_tables_descriptions E ds ''DOCUMENTED_THEN_REST'' (Some uri) w
           = (Inl ValueError, w)"
  using assms then_rest_loop [of "fst row" "snd row" rows tables E w]
  by (simp add: generate_dataset_tables_descriptions_def GENERATION_STRATEGY_def
      get_tables_from_uri_def bindM_def catch_def raise_def ret_def lift_def)

text \<open>
  C1, as amended. If the mapping names a table that the dataset does not list, then:
  under DOCUMENTED_THEN_REST batch generation raises the validation error before any
  description is generated, and no generation work happens for any table; under
  DOCUMENTED the mapping is validated row by row, each row just before its own
  generation, so the rows before the first absent table are generated first, in the
  mapping's order, and the batch then raises the validation error (or the error of an
  earlier generation that failed), with no generation work for the offending row or for
  any row after it.
\<close>

theorem documented_validation_is_interleaved:
  assumes "list_tables_in_dataset E ds = Inr tables" and "storage_client E = None"
    and "read_mapping E uri = Inr (pre @ (t, d) # post)"
    and "\<forall>row\<in>set pre. fst row \<in> set tables" and "t \<notin> set tables"
  shows "generate_dataset_tables_descriptions E ds ''DOCUMENTED'' (Some uri) w
           = (case generate_rows E pre w of
                (Inl e, w') \<Rightarrow> (Inl e, w')
              | (Inr u, w') \<Rightarrow> (Inl ValueError, w'))
         \<and> generate_dataset_tables_descriptions E ds ''DOCUMENTED_THEN_REST'' (Some uri) w
             = (Inl ValueError, w)"
proof
  show "generate_dataset_tables_descriptions E ds ''DOCUMENTED'' (Some uri) w
           = (case generate_rows E pre w of
                (Inl e, w') \<Rightarrow> (Inl e, w')
              | (Inr u, w') \<Rightarrow> (Inl ValueError, w'))"
    using assms(1-3) documented_loop [OF assms(4,5), of d post E w]
    by (simp add: generate_dataset_tables_descriptions_def GENERATION_STRATEGY_def
      get_tables_from_uri_def bindM_def catch_def raise_def ret_def lift_def
      split: prod.splits sum.splits)
next
  obtain row rows where rows: "pre @ (t, d) # post = row # rows"
    by (cases pre) auto
  with assms(3) have "read_mapping E uri = Inr (row # rows)" by simp
  with assms(1,2)
  show "generate_dataset_tables_descriptions E ds ''DOCUMENTED_THEN_REST'' (Some uri) w
          = (Inl ValueError, w)"
    by (rule then_rest_rejects_every_mapping)
qed

text \<open>
  On the example, where the mapping names \<^verbatim>\<open>p.d.a\<close> and then \<^verbatim>\<open>p.d.zz\<close>, and the
  dataset has no \<^verbatim>\<open>p.d.zz\<close>.
\<close>

theorem documented_validation_is_interleaved_witness:
  "generate_dataset_tables_descriptions example_env ''p.d'' ''DOCUMENTED''
       (Some ''gs://docs/m.csv'') example_world
     = (case generate_rows example_env [(''p.d.a'', ''gs://docs/a.pdf'')] example_world of
          (Inl e, w') \<Rightarrow> (Inl e, w')
        | (Inr u, w') \<Rightarrow> (Inl ValueError, w'))
   \<and> generate_dataset_tables_descriptions example_env ''p.d'' ''DOCUMENTED_THEN_REST''
        (Some ''gs://docs/m.csv'') example_world
       = (Inl ValueError, example_world)"
proof -
  have "list_tables_in_dataset example_env ''p.d'' = Inr [''p.d.a'', ''p.d.b'']"
    and "storage_client example_env = None"
    and "read_mapping example_env ''gs://docs/m.csv''
           = Inr ([(''p.d.a'', ''gs://docs/a.pdf'')] @ (''p.d.zz'', ''gs://docs/zz.pdf'') # [])"
    and "\<forall>row\<in>set [(''p.d.a'', ''gs://docs/a.pdf'')]. fst row \<in> set [''p.d.a'', ''p.d.b'']"
    and "''p.d.zz'' \<notin> set [''p.d.a'', ''p.d.b'']"
    by (simp_all add: example_env_def)
  then show ?thesis
    by (rule documented_validation_is_interleaved)
qed

text \<open>
  C1 as stated fails under DOCUMENTED: on the example the batch raises the validation
  error for \<^verbatim>\<open>p.d.zz\<close>, and by then the description of \<^verbatim>\<open>p.d.a\<close>, which comes
  earlier in the mapping, has been generated and written to the warehouse.
\<close>

theorem documented_generates_before_the_error:
  "read_mapping example_env ''gs://docs/m.csv''
     = Inr [(''p.d.a'', ''gs://docs/a.pdf''), (''p.d.zz'', ''gs://docs/zz.pdf'')]
   \<and> list_tables_in_dataset example_env ''p.d'' = Inr [''p.d.a'', ''p.d.b'']
   \<and> bq_tables example_world ''p.d.a'' = Some example_table
   \<and> table_description example_table = None
   \<and> fst (generate_dataset_tables_descriptions example_env ''p.d'' ''DOCUMENTED''
            (Some ''gs://docs/m.csv'') example_world) = Inl ValueError
   \<and> bq_tables (snd (generate_dataset_tables_descriptions example_env ''p.d'' ''DOCUMENTED''
                       (Some ''gs://docs/m.csv'') example_world)) ''p.d.a''
       = Some (example_table\<lparr>table_description := Some ''AI: text''\<rparr>)"
proof -
  have batch: "generate_dataset_tables_descriptions example_env ''p.d'' ''DOCUMENTED''
       (Some ''gs://docs/m.csv'') example_world
     = (case generate_table_description example_env ''p.d.a'' (Some ''gs://docs/a.pdf'') None
               example_world of
          (Inl e, w') \<Rightarrow> (Inl e, w')
        | (Inr u, w') \<Rightarrow> (Inl ValueError, w'))"
    by (simp add: generate_dataset_tables_descriptions_def GENERATION_STRATEGY_def
        get_tables_from_uri_def act_defs example_env_def split: prod.splits sum.splits)
  show ?thesis
    unfolding batch generate_table_description_example
    by (simp add: example_env_def example_world_def example_table_def)
qed

text \<open>
  C8. A batch call with strategy DOCUMENTED or DOCUMENTED_THEN_REST and no mapping URI
  should fail with the validation error before any generation. Under DOCUMENTED it
  does. Under DOCUMENTED_THEN_REST the check is missing: the tables are listed, the
  mapping is read from \<^verbatim>\<open>None\<close>, and the batch fails with \<^verbatim>\<open>AttributeError\<close>, still
  before any generation.
\<close>

theorem missing_mapping_uri:
  "generate_dataset_tables_descriptions E ds ''DOCUMENTED'' None w = (Inl ValueError, w)
   \<and> (list_tables_in_dataset E ds = Inr ts \<and> storage_client E = None \<longrightarrow>
        generate_dataset_tables_descriptions E ds ''DOCUMENTED_THEN_REST'' None w
          = (Inl AttributeError, w))"
  by (simp add: generate_dataset_tables_descriptions_def GENERATION_STRATEGY_def
      get_tables_from_uri_def bindM_def catch_def raise_def ret_def lift_def)

theorem missing_mapping_uri_witness:
  "list_tables_in_dataset example_env ''p.d'' = Inr [''p.d.a'', ''p.d.b'']
   \<and> storage_client example_env = None
   \<and> generate_dataset_tables_descriptions example_env ''p.d'' ''DOCUMENTED_THEN_REST'' None
        example_world
       = (Inl AttributeError, example_world)"
  using missing_mapping_uri [of example_env "''p.d''" example_world "[''p.d.a'', ''p.d.b'']"]
  by (simp add: example_env_def)

subsection \<open>A table that does not exist\<close>

text \<open>
  C9. Generation for a table that does not exist should surface a not-found error, as
  it is. The generation of a table's description does; the generation of its columns'
  descriptions catches the error and calls it, which raises \<^verbatim>\<open>TypeError\<close> instead.
  Neither changes anything.
\<close>

theorem generation_for_a_missing_table:
  "bq_tables w t = None \<Longrightarrow>
   generate_table_description E t d h w = (Inl NotFound, w)
   \<and> generate_columns_descriptions E t d h w = (Inl TypeError, w)"
  by (simp add: generate_table_description_def generate_columns_descriptions_def
      table_exists_def bindM_def catch_def get_table_def raise_def)

theorem generation_for_a_missing_table_witness:
  "bq_tables example_world ''p.d.q'' = None
   \<and> generate_table_description example_env ''p.d.q'' None None example_world
       = (Inl NotFound, example_world)
   \<and> generate_columns_descriptions example_env ''p.d.q'' None None example_world
       = (Inl TypeError, example_world)"
proof -
  have missing: "bq_tables example_world ''p.d.q'' = None"
    by (simp add: example_world_def)
  from generation_for_a_missing_table [OF missing, of example_env None None] missing
  show ?thesis by simp
qed

subsection \<open>The flags after a generation call\<close>

lemma flags_only_lowered_refl: "flags_only_lowered a a"
  by (simp add: flags_only_lowered_def)

lemma flags_only_lowered_trans:
  "flags_only_lowered a b \<Longrightarrow> flags_only_lowered b c \<Longrightarrow> flags_only_lowered a c"
  by (simp add: flags_only_lowered_def)

lemma lowers_ret [lowers_intros]: "lowers (ret x)"
  by (simp add: lowers_def ret_def flags_only_lowered_refl)

lemma lowers_raise [lowers_intros]: "lowers (raise e)"
  by (simp add: lowers_def raise_def flags_only_lowered_refl)

lemma lowers_lift [lowers_intros]: "lowers (lift r)"
  by (simp add: lowers_def lift_def flags_only_lowered_refl)

lemma lowers_get_options [lowers_intros]: "lowers get_options"
  by (simp add: lowers_def get_options_def flags_only_lowered_refl)

lemma lowers_bindM [lowers_intros]:
  assumes "lowers m" and "\<And>x. lowers (f x)"
  shows "lowers (bindM m f)"
proof (unfold lowers_def, intro allI)
  fix w
  obtain r w1 where m: "m w = (r, w1)" by (cases "m w")
  from assms(1) m have 1: "flags_only_lowered (options w) (options w1)"
    by (auto simp: lowers_def dest: spec [of _ w])
  show "flags_only_lowered (options w) (options (snd (bindM m f w)))"
  proof (cases r)
    case (Inl e)
    with m 1 show ?thesis by (simp add: bindM_def)
  next
    case (Inr x)
    from assms(2) [of x] have "flags_only_lowered (options w1) (options (snd (f x w1)))"
      by (simp add: lowers_def)
    with 1 m Inr show ?thesis by (auto simp: bindM_def intro: flags_only_lowered_trans)
  qed
qed

lemma lowers_catch [lowers_intros]:
  assumes "lowers m" and "\<And>e. lowers (h e)"
  shows "lowers (catch m h)"
proof (unfold lowers_def, intro allI)
  fix w
  obtain r w1 where m: "m w = (r, w1)" by (cases "m w")
  from assms(1) m have 1: "flags_only_lowered (options w) (options w1)"
    by (auto simp: lowers_def dest: spec [of _ w])
  show "flags_only_lowered (options w) (options (snd (catch m h w)))"
  proof (cases r)
    case (Inr x)
    with m 1 show ?thesis by (simp add: catch_def)
  next
    case (Inl e)
    from assms(2) [of e] have "flags_only_lowered (options w1) (options (snd (h e w1)))"
      by (simp add: lowers_def)
    with 1 m Inl show ?thesis by (auto simp: catch_def intro: flags_only_lowered_trans)
  qed
qed

lemma lowers_if [lowers_intros]: "lowers a \<Longrightarrow> lowers b \<Longrightarrow> lowers (if c then a else b)"
  by simp

lemma lowers_case_option [lowers_intros]:
  "lowers a \<Longrightarrow> (\<And>x. lowers (f x)) \<Longrightarrow> lowers (case v of None \<Rightarrow> a | Some x \<Rightarrow> f x)"
  by (cases v) simp_all

lemma lowers_case_prod [lowers_intros]:
  "(\<And>a b. lowers (f a b)) \<Longrightarrow> lowers (case p of (a, b) \<Rightarrow> f a b)"
  by (cases p) simp

lemma lowers_case_pvalue [lowers_intros]:
  "lowers a \<Longrightarrow> (\<And>s. lowers (f s)) \<Longrightarrow> (\<And>l. lowers (g l))
   \<Longrightarrow> lowers (case v of PNull \<Rightarrow> a | PString s \<Rightarrow> f s | PStrings l \<Rightarrow> g l)"
  by (cases v) simp_all

lemma lowers_for_each [lowers_intros]: "(\<And>x. lowers (body x)) \<Longrightarrow> lowers (for_each xs body)"
  by (induction xs) (auto intro: lowers_intros)

lemma lowers_collect [lowers_intros]: "(\<And>x. lowers (body x)) \<Longrightarrow> lowers (collect xs body)"
  by (induction xs) (auto intro: lowers_intros)

lemma lowers_clear_lineage_tables [lowers_intros]:
  "lowers (set_options (\<lambda>opts. opts\<lparr>use_lineage_tables := False\<rparr>))"
  by (simp add: lowers_def set_options_def flags_only_lowered_def)

lemma lowers_clear_lineage_processes [lowers_intros]:
  "lowers (set_options (\<lambda>opts. opts\<lparr>use_lineage_processes := False\<rparr>))"
  by (simp add: lowers_def set_options_def flags_only_lowered_def)

lemma lowers_get_table [lowers_intros]: "lowers (get_table t)"
  by (simp add: lowers_def get_table_def flags_only_lowered_refl split: option.splits)

lemma lowers_update_table [lowers_intros]: "lowers (update_table E t tb)"
  by (simp add: lowers_def update_table_def flags_only_lowered_refl split: option.splits)

lemma lowers_get_entry [lowers_intros]: "lowers (get_entry n ts)"
  by (simp add: lowers_def get_entry_def flags_only_lowered_refl split: option.splits)

lemma lowers_update_entry [lowers_intros]: "lowers (update_entry E n k a)"
  by (simp add: lowers_def update_entry_def flags_only_lowered_refl split: option.splits)

lemma lowers_sleep [lowers_intros]: "lowers (sleep n)"
  by (simp add: lowers_def sleep_def flags_only_lowered_refl)

lemma lowers_check_if_exists_aspect_type [lowers_intros]:
  "lowers (check_if_exists_aspect_type E n)"
  by (simp add: lowers_def check_if_exists_aspect_type_def flags_only_lowered_refl)

lemma lowers_create_aspect_type [lowers_intros]: "lowers (create_aspect_type E n)"
  by (simp add: lowers_def create_aspect_type_def flags_only_lowered_refl
      split: option.splits)

lemma lowers_llm_attempts [lowers_intros]: "lowers (llm_attempts E p d ks)"
  by (induction ks) (auto intro!: lowers_intros)

lemma lowers_llm_inference [lowers_intros]: "lowers (llm_inference E p d)"
  by (simp add: llm_inference_def lowers_llm_attempts)

lemma lowers_table_exists [lowers_intros]: "lowers (table_exists t)"
  unfolding table_exists_def by (intro lowers_intros)

lemma lowers_get_table_schema [lowers_intros]: "lowers (get_table_schema t)"
  unfolding get_table_schema_def by (intro lowers_intros)

lemma lowers_get_table_description [lowers_intros]: "lowers (get_table_description t)"
  unfolding get_table_description_def by (intro lowers_intros)

lemma lowers_get_table_profile_quality [lowers_intros]:
  "lowers (get_table_profile_quality E u t)"
  unfolding get_table_profile_quality_def by (intro lowers_intros)

lemma lowers_get_table_profile [lowers_intros]: "lowers (get_table_profile E u t)"
  unfolding get_table_profile_def by (intro lowers_intros)

lemma lowers_get_table_quality [lowers_intros]: "lowers (get_table_quality E u t)"
  unfolding get_table_quality_def by (intro lowers_intros)

lemma lowers_get_table_sources_info [lowers_intros]: "lowers (get_table_sources_info E u t)"
  unfolding get_table_sources_info_def by (intro lowers_intros)

lemma lowers_get_job_sources [lowers_intros]: "lowers (get_job_sources E u t)"
  unfolding get_job_sources_def by (intro lowers_intros)

lemma lowers_update_table_bq_description [lowers_intros]:
  "lowers (update_table_bq_description E t d)"
  unfolding update_table_bq_description_def by (intro lowers_intros)

lemma lowers_update_table_schema [lowers_intros]: "lowers (update_table_schema E t s)"
  unfolding update_table_schema_def by (intro lowers_intros)

lemma lowers_update_table_dataplex_description [lowers_intros]:
  "lowers (update_table_dataplex_description E t d)"
  unfolding update_table_dataplex_description_def by (intro lowers_intros)

lemma lowers_update_table_draft_description [lowers_intros]:
  "lowers (update_table_draft_description E t d)"
  unfolding update_table_draft_description_def by (intro lowers_intros)


















subsection \<open>Staging and accepting drafts\<close>

lemma endswith_append: "endswith (a @ b) b"
  by (simp add: endswith_def)

lemma foldl_last_match:
  assumes "\<exists>(i, a)\<in>set xs. M i a" and "\<forall>(i, a)\<in>set xs. M i a \<longrightarrow> g a = v"
  shows "foldl (\<lambda>acc (i, a). if M i a then g a else acc) init xs = v"
  using assms
proof (induction xs rule: rev_induct)
  case Nil
  then show ?case by simp
next
  case (snoc x xs)
  obtain i a where x: "x = (i, a)" by (cases x)
  show ?case
  proof (cases "M i a")
    case True
    with snoc.prems(2) x have "g a = v" by auto
    with True x show ?thesis by simp
  next
    case False
    with snoc.prems x have "\<exists>(i, a)\<in>set xs. M i a" "\<forall>(i, a)\<in>set xs. M i a \<longrightarrow> g a = v"
      by auto
    from snoc.IH [OF this] False x show ?thesis by simp
  qed
qed

lemma merged_draft_data_unique:
  assumes "\<exists>(i, a)\<in>set xs. endswith i (''global.'' @ ASPECT_TEMPLATE_name E) \<and> path a = []"
    and "\<forall>(i, a)\<in>set xs. endswith i (''global.'' @ ASPECT_TEMPLATE_name E) \<and> path a = []
           \<longrightarrow> a = old"
  shows "merged_draft_data E d xs
       = (data old)(''contents'' \<mapsto> d, ''generation-date'' \<mapsto> PString (now E),
                    ''to-be-regenerated'' \<mapsto> PString ''false'')"
  unfolding merged_draft_data_def
proof (rule foldl_last_match)
  show "\<exists>(i, a)\<in>set xs. endswith i (''global.'' @ ASPECT_TEMPLATE_name E) \<and> path a = []"
    by (rule assms(1))
  show "\<forall>(i, a)\<in>set xs. endswith i (''global.'' @ ASPECT_TEMPLATE_name E) \<and> path a = [] \<longrightarrow>
      (data a)(''contents'' \<mapsto> d, ''generation-date'' \<mapsto> PString (now E),
               ''to-be-regenerated'' \<mapsto> PString ''false'')
      = (data old)(''contents'' \<mapsto> d, ''generation-date'' \<mapsto> PString (now E),
                   ''to-be-regenerated'' \<mapsto> PString ''false'')"
    using assms(2) by blast
qed

lemma keys_put_aspect:
  "k \<in> set (map fst xs) \<Longrightarrow> map fst (put_aspect k a xs) = map fst xs"
proof (induction xs)
  case Nil
  then show ?case by simp
next
  case (Cons x xs)
  obtain k' a' where x: "x = (k', a')" by (cases x)
  show ?case
  proof (cases "k' = k")
    case True
    with x show ?thesis by simp
  next
    case False
    with Cons.prems x have "k \<in> set (map fst xs)" by auto
    with Cons.IH False x show ?thesis by simp
  qed
qed

lemma map_of_put_aspect: "map_of (put_aspect k a xs) = (map_of xs)(k \<mapsto> a)"
  by (induction xs) (auto simp: fun_eq_iff)

text \<open>
  C3. For every table whose catalog entry already holds a draft aspect at table scope
  (under the key of the client's draft type, with the empty path, and the only aspect of
  that type with the empty path), staging a newly generated description, when the
  catalog accepts the write, merges into that record: the entry has the same keys as
  before, and the record under the draft's key has the old data with \<open>contents\<close>
  replaced by the new description, \<open>generation-date\<close> set to the current time and
  \<open>to-be-regenerated\<close> set to \<open>false\<close>; \<open>human-comments\<close> and \<open>negative-examples\<close>
  are what they were.
\<close>

theorem staged_generation_merges_into_the_draft:
  assumes "split_table_fqn E t = Inr (p, ds, tbl)" and "get_dataset_location E t = Inr loc"
    and "catalog w (entry_name_of p loc ds tbl) = Some aspects"
    and "update_entry_error E (entry_name_of p loc ds tbl) = None"
    and "(project_id E @ ''.global.'' @ ASPECT_TEMPLATE_name E, old) \<in> set aspects"
    and "aspect_type old = draft_aspect_type E" and "path old = []"
    and "\<forall>(i, a)\<in>set aspects. aspect_type a = draft_aspect_type E \<and> path a = [] \<longrightarrow> a = old"
  shows "\<exists>new. update_table_draft_description E t d w
            = (Inr True, w\<lparr>catalog := (catalog w)(entry_name_of p loc ds tbl \<mapsto>
                 put_aspect (project_id E @ ''.global.'' @ ASPECT_TEMPLATE_name E) new
                   aspects)\<rparr>)
       \<and> map fst (put_aspect (project_id E @ ''.global.'' @ ASPECT_TEMPLATE_name E) new aspects)
           = map fst aspects
       \<and> map_of (put_aspect (project_id E @ ''.global.'' @ ASPECT_TEMPLATE_name E) new aspects)
           = (map_of aspects)(project_id E @ ''.global.'' @ ASPECT_TEMPLATE_name E \<mapsto> new)
       \<and> aspect_type new = draft_aspect_type E \<and> path new = []
       \<and> data new = (data old)(''contents'' \<mapsto> d, ''generation-date'' \<mapsto> PString (now E),
                                ''to-be-regenerated'' \<mapsto> PString ''false'')
       \<and> data new ''human-comments'' = data old ''human-comments''
       \<and> data new ''negative-examples'' = data old ''negative-examples''
       \<and> data new ''contents'' = Some d
       \<and> data new ''generation-date'' = Some (PString (now E))
       \<and> data new ''to-be-regenerated'' = Some (PString ''false'')"
proof -
  let ?key = "project_id E @ ''.global.'' @ ASPECT_TEMPLATE_name E"
  let ?found = "filter (\<lambda>(k, a). aspect_type a \<in> set [draft_aspect_type E]) aspects"
  let ?new = "\<lparr>aspect_type = draft_aspect_type E, path = [],
               data = (data old)(''contents'' \<mapsto> d, ''generation-date'' \<mapsto> PString (now E),
                                 ''to-be-regenerated'' \<mapsto> PString ''false'')\<rparr>"
  have key: "endswith ?key (''global.'' @ ASPECT_TEMPLATE_name E)"
    using endswith_append [of "project_id E @ ''.''" "''global.'' @ ASPECT_TEMPLATE_name E"]
    by simp
  have 1: "\<exists>(i, a)\<in>set ?found. endswith i (''global.'' @ ASPECT_TEMPLATE_name E) \<and> path a = []"
    using assms(5-7) key by force
  have 2: "\<forall>(i, a)\<in>set ?found. endswith i (''global.'' @ ASPECT_TEMPLATE_name E) \<and> path a = []
             \<longrightarrow> a = old"
    using assms(8) by auto
  have merged: "merged_draft_data E d ?found = data ?new"
    using merged_draft_data_unique [OF 1 2] by simp
  have run: "update_table_draft_description E t d w
            = (Inr True, w\<lparr>catalog := (catalog w)(entry_name_of p loc ds tbl \<mapsto>
                 put_aspect ?key ?new aspects)\<rparr>)"
    using assms(1-4) merged
    by (simp add: update_table_draft_description_def bindM_def catch_def lift_def ret_def
        raise_def get_entry_def update_entry_def)
  have keys: "map fst (put_aspect ?key ?new aspects) = map fst aspects"
    using assms(5) by (intro keys_put_aspect) force
  show ?thesis
    apply (rule exI [of _ ?new])
    using run keys by (simp add: map_of_put_aspect)
qed

text \<open>
  On the entry with a commented draft: a second staged description keeps the human
  comment.
\<close>

theorem staged_generation_merges_into_the_draft_witness:
  "\<exists>new. update_table_draft_description example_env ''p.d.a'' (PString ''second'')
            drafted_world
          = (Inr True, drafted_world\<lparr>catalog := (catalog drafted_world)
               (entry_name_of ''p'' ''us'' ''d'' ''a'' \<mapsto>
                  put_aspect ''p.global.draft'' new drafted_aspects)\<rparr>)
        \<and> map fst (put_aspect ''p.global.draft'' new drafted_aspects)
            = [''p.global.draft'', ''p.global.draft@Schema.id'']
        \<and> data new ''contents'' = Some (PString ''second'')
        \<and> data new ''human-comments'' = Some (PStrings [''too vague''])
        \<and> data new ''to-be-regenerated'' = Some (PString ''false'')"
proof -
  have facts: "split_table_fqn example_env ''p.d.a'' = Inr (''p'', ''d'', ''a'')"
    "get_dataset_location example_env ''p.d.a'' = Inr ''us''"
    "catalog drafted_world (entry_name_of ''p'' ''us'' ''d'' ''a'') = Some drafted_aspects"
    "update_entry_error example_env (entry_name_of ''p'' ''us'' ''d'' ''a'') = None"
    "(project_id example_env @ ''.global.'' @ ASPECT_TEMPLATE_name example_env, table_draft)
       \<in> set drafted_aspects"
    "aspect_type table_draft = draft_aspect_type example_env"
    "path table_draft = []"
    "\<forall>(i, a)\<in>set drafted_aspects.
        aspect_type a = draft_aspect_type example_env \<and> path a = [] \<longrightarrow> a = table_draft"
    by (simp_all add: example_env_def drafted_world_def drafted_aspects_def table_draft_def
        column_draft_def draft_aspect_type_def)
  from staged_generation_merges_into_the_draft [OF facts, of "PString ''second''"]
  obtain new where new:
    "update_table_draft_description example_env ''p.d.a'' (PString ''second'') drafted_world
      = (Inr True, drafted_world\<lparr>catalog := (catalog drafted_world)
           (entry_name_of ''p'' ''us'' ''d'' ''a'' \<mapsto>
              put_aspect (project_id example_env @ ''.global.''
                            @ ASPECT_TEMPLATE_name example_env) new drafted_aspects)\<rparr>)"
    "map fst (put_aspect (project_id example_env @ ''.global.''
                            @ ASPECT_TEMPLATE_name example_env) new drafted_aspects)
       = map fst drafted_aspects"
    "data new ''human-comments'' = data table_draft ''human-comments''"
    "data new ''contents'' = Some (PString ''second'')"
    "data new ''to-be-regenerated'' = Some (PString ''false'')"
    by blast
  have key: "project_id example_env @ ''.global.'' @ ASPECT_TEMPLATE_name example_env
               = ''p.global.draft''"
    by (simp add: example_env_def)
  from new show ?thesis
    unfolding key
    by (intro exI [of _ new]) (simp add: drafted_aspects_def table_draft_def)
qed

text \<open>
  C4. Accepting the draft of a table should write the contents of the draft at table
  scope to the catalog overview and to the warehouse. The accept method for a table
  tests the aspect type and not the path, so every draft of the entry passes, and the
  last one iterated wins: on the entry whose table draft says \<open>X\<close> and whose draft for
  the column \<^verbatim>\<open>id\<close> says \<open>Y\<close>, accepting the table's draft writes \<open>Y\<close> as the overview
  and as the table's description. (Accepting the column's draft writes \<open>Y\<close> to the
  column.)
\<close>

theorem accept_table_takes_the_last_draft:
  "data table_draft ''contents'' = Some (PString ''X'')
   \<and> path table_draft = []
   \<and> catalog drafted_world (entry_name_of ''p'' ''us'' ''d'' ''a'')
       = Some [(''p.global.draft'', table_draft), (''p.global.draft@Schema.id'', column_draft)]
   \<and> fst (accept_table_draft_description example_env ''p.d.a'' drafted_world) = Inr ()
   \<and> map_option table_description
        (bq_tables (snd (accept_table_draft_description example_env ''p.d.a'' drafted_world))
           ''p.d.a'')
       = Some (Some ''Y'')
   \<and> map_option (map (\<lambda>(key, a). (key, data a ''content'')))
        (catalog (snd (accept_table_draft_description example_env ''p.d.a'' drafted_world))
           (entry_name_of ''p'' ''us'' ''d'' ''a''))
       = Some [(''p.global.draft'', None), (''p.global.draft@Schema.id'', None),
               (''dataplex-types.global.overview'', Some (PString ''Y''))]
   \<and> map_option (\<lambda>tb. map description (table_schema tb))
        (bq_tables (snd (accept_column_draft_description example_env ''p.d.a'' ''id''
                           drafted_world)) ''p.d.a'')
       = Some [Some ''Y'', Some ''old'']"
  by (simp add: accept_table_draft_description_def accept_column_draft_description_def
      table_draft_overview_def column_draft_overview_def update_column_bq_description_def
      get_updated_column_def endswith_def drafted_world_def drafted_aspects_def
      table_draft_def column_draft_def act_defs read_defs write_defs example_defs)

end
